theory Spec2Isabelle
  imports Main
begin

section \<open>The asset field editor of pxtblocks (field\_asset.ts)\<close>

text \<open>
  The file \<^verbatim>\<open>pxtblocks/fields/field_asset.ts\<close> defines the abstract class
  \<^verbatim>\<open>FieldAssetEditor\<close> and the event class \<^verbatim>\<open>BlocklyTilemapChange\<close>.
  Both are embedded here as functions on explicit state. Mutation of \<^verbatim>\<open>this\<close>
  becomes a record that is returned updated; the shared tilemap project, Blockly and the
  subclass hooks live outside the file and are taken as parameters (records of functions
  over an abstract project state); a \<^verbatim>\<open>TypeError\<close> raised by a property read on
  \<^verbatim>\<open>undefined\<close> is a value of a sum type. Source names are kept; a trailing
  underscore (\<^verbatim>\<open>showEditor_\<close>, \<^verbatim>\<open>sourceBlock_\<close>) is dropped. The methods
  \<^verbatim>\<open>render_\<close> and \<^verbatim>\<open>updateEditable\<close> only size and style DOM nodes of Blockly and
  are not embedded.
\<close>

subsection \<open>JavaScript built-ins\<close>

text \<open>
  Strings are lists of code units. \<^verbatim>\<open>String.prototype.toLowerCase\<close> is modelled on
  the ASCII letters, the only code units whose lower case is a letter of \<^verbatim>\<open>"true"\<close>.
\<close>

definition lowerChar :: "char \<Rightarrow> char" where
  "lowerChar c =
     (let n = (of_char c :: nat)
      in if 65 \<le> n \<and> n \<le> 90 then char_of (n + 32) else c)"

definition toLowerCase :: "string \<Rightarrow> string" where
  "toLowerCase s = map lowerChar s"

text \<open>\<^verbatim>\<open>s.indexOf(c)\<close> for a one-character search string: \<open>-1\<close> when absent.\<close>

fun indexOfFrom :: "string \<Rightarrow> char \<Rightarrow> int \<Rightarrow> int" where
  "indexOfFrom [] c i = -1"
| "indexOfFrom (x # xs) c i = (if x = c then i else indexOfFrom xs c (i + 1))"

definition indexOf :: "string \<Rightarrow> char \<Rightarrow> int" where
  "indexOf s c = indexOfFrom s c 0"

text \<open>
  \<^verbatim>\<open>s.substr(start, length)\<close>: a negative start counts from the end, and the length
  is clamped to what is left (a negative length gives the empty string).
\<close>

definition substr :: "string \<Rightarrow> int \<Rightarrow> int \<Rightarrow> string" where
  "substr s start len =
     (let size = int (length s);
          st = (if start < 0 then max (size + start) 0 else min start size);
          l = min (max len 0) (size - st)
      in take (nat l) (drop (nat st) s))"

text \<open>
  \<^verbatim>\<open>parseInt(raw)\<close> without a radix, after ECMAScript: leading white space is
  skipped, a sign is read, a \<^verbatim>\<open>0x\<close> prefix selects radix 16, and the longest prefix
  of digits is converted. \<open>None\<close> stands for \<^verbatim>\<open>NaN\<close>; an absent argument is
  converted to the string \<^verbatim>\<open>"undefined"\<close> first. Numbers are exact integers.
\<close>

definition isStrWhiteSpaceChar :: "char \<Rightarrow> bool" where
  "isStrWhiteSpaceChar c = ((of_char c :: nat) \<in> {9, 10, 11, 12, 13, 32, 160})"

definition digitValue :: "char \<Rightarrow> nat" where
  "digitValue c =
     (let n = (of_char c :: nat)
      in if 48 \<le> n \<and> n \<le> 57 then n - 48
         else if 97 \<le> n \<and> n \<le> 122 then n - 87
         else if 65 \<le> n \<and> n \<le> 90 then n - 55
         else 36)"

definition isRadixDigit :: "nat \<Rightarrow> char \<Rightarrow> bool" where
  "isRadixDigit R c = (digitValue c < R)"

definition parseInt :: "string option \<Rightarrow> int option" where
  "parseInt raw =
     (let inputString = (case raw of None \<Rightarrow> ''undefined'' | Some s \<Rightarrow> s);
          S = dropWhile isStrWhiteSpaceChar inputString;
          sign = (if take 1 S = ''-'' then -1 else 1 :: int);
          S1 = (if take 1 S = ''+'' \<or> take 1 S = ''-'' then drop 1 S else S);
          hex = (take 2 S1 = ''0x'' \<or> take 2 S1 = ''0X'');
          R = (if hex then 16 else 10 :: nat);
          S2 = (if hex then drop 2 S1 else S1);
          Z = takeWhile (isRadixDigit R) S2
      in if Z = [] then None
         else Some (sign * int (foldl (\<lambda>acc c. acc * R + digitValue c) 0 Z)))"

subsection \<open>Field options\<close>

text \<open>
  \<^verbatim>\<open>FieldAssetEditorOptions\<close>: every property is a string that may be missing from
  the options object.
\<close>

record FieldAssetEditorOptions =
  opt_initWidth :: "string option"
  opt_initHeight :: "string option"
  opt_disableResize :: "string option"

record ParsedFieldAssetEditorOptions =
  initWidth :: int
  initHeight :: int
  disableResize :: bool

definition withDefault :: "string option \<Rightarrow> int \<Rightarrow> int" where
  "withDefault raw def = (case parseInt raw of None \<Rightarrow> def | Some res \<Rightarrow> res)"

text \<open>A string is truthy when it is present and not empty.\<close>

definition truthy :: "string option \<Rightarrow> bool" where
  "truthy s = (case s of None \<Rightarrow> False | Some t \<Rightarrow> t \<noteq> [])"

definition parseFieldOptions :: "FieldAssetEditorOptions option \<Rightarrow> ParsedFieldAssetEditorOptions" where
  "parseFieldOptions opts =
     (let parsed = \<lparr>initWidth = 16, initHeight = 16, disableResize = False\<rparr>
      in case opts of
           None \<Rightarrow> parsed
         | Some os \<Rightarrow>
             (let parsed1 =
                    (case opt_disableResize os of
                       None \<Rightarrow> parsed
                     | Some d \<Rightarrow>
                         if d \<noteq> []
                         then parsed\<lparr>disableResize := (toLowerCase d = ''true'' \<or> d = ''1'')\<rparr>
                         else parsed);
                  parsed2 = parsed1\<lparr>initWidth := withDefault (opt_initWidth os) (initWidth parsed1)\<rparr>;
                  parsed3 = parsed2\<lparr>initHeight := withDefault (opt_initHeight os) (initHeight parsed2)\<rparr>
              in parsed3))"

subsection \<open>Assets, blocks and the field\<close>

text \<open>
  Modelled from the spec: \<^verbatim>\<open>pxt.AssetType\<close> is declared outside this file; the
  spec names the four kinds image, animation, tile and tilemap, and the file's two
  \<^verbatim>\<open>switch\<close> statements name the same four.
\<close>

datatype AssetType = Image | Tile | Tilemap | Animation

datatype error = TypeError

record AssetMetadata =
  displayName :: "string option"
  blockIDs :: "string list option"

text \<open>
  \<^verbatim>\<open>pxt.Asset\<close> is a union discriminated by \<^verbatim>\<open>type\<close>: images and tiles carry a
  \<^verbatim>\<open>bitmap\<close>, animations carry \<^verbatim>\<open>frames\<close>, tilemaps carry \<^verbatim>\<open>data\<close>. The
  bitmap data \<open>'b\<close> is opaque. Only the properties this file reads or writes are kept.
  The file tests \<^verbatim>\<open>asset.meta\<close> and \<^verbatim>\<open>meta.blockIDs\<close> for presence, so both
  are optional.
\<close>

record 'b TileAsset =
  tile_id :: string
  tile_bitmap :: 'b

record 'b TileSet =
  tileWidth :: int
  tiles :: "'b TileAsset list"

record 'b TilemapData =
  tileset :: "'b TileSet"
  projectReferences :: "string list"

datatype 'b AssetContent =
    ImageContent 'b
  | TileContent 'b
  | AnimationContent "'b list"
  | TilemapContent "'b TilemapData"

record 'b Asset =
  asset_id :: string
  meta :: "AssetMetadata option"
  content :: "'b AssetContent"

fun content_type :: "'b AssetContent \<Rightarrow> AssetType" where
  "content_type (ImageContent b) = Image"
| "content_type (TileContent b) = Tile"
| "content_type (AnimationContent fs) = Animation"
| "content_type (TilemapContent d) = Tilemap"

definition asset_type :: "'b Asset \<Rightarrow> AssetType" where
  "asset_type a = content_type (content a)"

text \<open>
  A block: its id, whether it sits in the flyout, and the ids of the blocks of its
  workspace (those for which \<^verbatim>\<open>workspace.getBlockById\<close> returns a block).
\<close>

record Block =
  block_id :: string
  isInFlyout :: bool
  workspace :: "string list"

definition getBlockById :: "string list \<Rightarrow> string \<Rightarrow> bool" where
  "getBlockById ws i = (i \<in> set ws)"

text \<open>The children of the field's SVG group.\<close>

datatype SvgElement =
    Rect int int int int string string int int
  | ImageElement string int int int int
  | TextElement

definition PREVIEW_WIDTH :: int where "PREVIEW_WIDTH = 32"
definition X_PADDING :: int where "X_PADDING = 5"
definition Y_PADDING :: int where "Y_PADDING = 1"
definition BG_PADDING :: int where "BG_PADDING = 4"
definition BG_WIDTH :: int where "BG_WIDTH = BG_PADDING * 2 + PREVIEW_WIDTH"

text \<open>
  The state of one field. \<open>blockData\<close> is the string that the base class keeps for
  this field in the data of the source block; \<^verbatim>\<open>getBlockData()\<close> and
  \<^verbatim>\<open>setBlockData(v)\<close> reach it through the source block (see \<open>getBlockData\<close>
  below). \<open>listener\<close> identifies the closure \<^verbatim>\<open>this.assetChangeListener\<close>;
  \<open>params_blocksInfo\<close> is the property the editor adds to \<^verbatim>\<open>this.params\<close>.
  \<open>isGreyBlock\<close> is false when it was never set, and \<open>undoRedoState\<close> is \<open>None\<close>
  when the property is undefined or otherwise falsy.
\<close>

record ('b, 'u, 'i) FieldAssetEditor =
  asset :: "'b Asset option"
  params :: ParsedFieldAssetEditorOptions
  params_blocksInfo :: "'i option"
  blocksInfo :: "'i option"
  lightMode :: bool
  undoRedoState :: "'u option"
  pendingEdit :: bool
  isGreyBlock :: bool
  valueText :: string
  name :: string
  sourceBlock :: "Block option"
  fieldGroup :: "SvgElement list option"
  blockData :: "string option"
  listener :: nat

subsection \<open>The host: events, the shared project, helpers and subclass hooks\<close>

datatype EventValue = VNull | VString string | VNumber int

text \<open>
  An event. The properties of the base class are \<open>None\<close> while they are not set, which
  is how Blockly leaves them on a blank event.
\<close>

record BlocklyTilemapChange =
  blockId :: "string option"
  element :: "string option"
  ev_name :: "string option"
  oldValue :: "EventValue option"
  newValue :: "EventValue option"
  oldRevision :: int
  newRevision :: int
  recordUndo :: bool

text \<open>
  What the file sees of the host: the state \<open>'p\<close> of the one project returned by
  \<^verbatim>\<open>pxt.react.getTilemapProject()\<close>, \<^verbatim>\<open>Blockly.Events.isEnabled()\<close>, the global
  \<^verbatim>\<open>Blockly.Events.recordUndo\<close> that a new event copies, and the events handed to
  \<^verbatim>\<open>Blockly.Events.fire\<close>, oldest first.
\<close>

record 'p Host =
  project :: 'p
  eventsEnabled :: bool
  recordUndoDefault :: bool
  fired :: "BlocklyTilemapChange list"

text \<open>
  The methods of \<^verbatim>\<open>pxt.TilemapProject\<close> that the file calls, as functions on the
  project state. A call returns normally; how the project notifies its listeners is the
  host's business (the notification itself is \<open>assetChangeListener\<close> below).
\<close>

record ('p, 'b) TilemapProject =
  revision :: "'p \<Rightarrow> int"
  lookupAsset :: "AssetType \<Rightarrow> string option \<Rightarrow> 'p \<Rightarrow> 'b Asset option"
  updateAsset :: "'b Asset \<Rightarrow> 'p \<Rightarrow> 'p"
  duplicateAsset :: "'b Asset \<Rightarrow> 'p \<Rightarrow> 'b Asset \<times> 'p"
  removeAsset :: "'b Asset \<Rightarrow> 'p \<Rightarrow> 'p"
  pushUndo :: "'p \<Rightarrow> 'p"
  undo :: "'p \<Rightarrow> 'p"
  redo :: "'p \<Rightarrow> 'p"
  addChangeListener :: "'b Asset \<Rightarrow> nat \<Rightarrow> 'p \<Rightarrow> 'p"
  removeChangeListener :: "AssetType \<Rightarrow> nat \<Rightarrow> 'p \<Rightarrow> 'p"
  getProjectTiles :: "int \<Rightarrow> bool \<Rightarrow> 'p \<Rightarrow> 'b TileSet \<times> 'p"
  isAssetUsed :: "'b TileAsset \<Rightarrow> string list \<Rightarrow> 'p \<Rightarrow> bool"

text \<open>
  Helpers of pxtlib and of the sibling field utilities. \<open>bitmapToImageURI\<close> stands for
  \<^verbatim>\<open>bitmapToImageURI(pxt.sprite.Bitmap.fromData(d), w, lightMode)\<close> on bitmap data
  \<open>d\<close>; \<^verbatim>\<open>Bitmap.fromData(undefined)\<close> throws a \<^verbatim>\<open>TypeError\<close>, which is a branch
  of \<open>previewURI\<close> below.
\<close>

record 'b Pxt =
  htmlUnescape :: "string \<Rightarrow> string"
  assetEquals :: "'b Asset option \<Rightarrow> 'b Asset \<Rightarrow> bool"
  bitmapToImageURI :: "'b \<Rightarrow> int \<Rightarrow> bool \<Rightarrow> string"
  tilemapToImageURI :: "'b TilemapData \<Rightarrow> int \<Rightarrow> bool \<Rightarrow> string"

text \<open>
  The abstract methods a subclass supplies, and the hook \<^verbatim>\<open>onEditorClose\<close>, whose
  body in this class is empty (\<open>\<lambda>a p. p\<close>) and which a subclass may override to
  touch the project.
\<close>

record ('p, 'b, 'u, 'i) Subclass =
  getAssetType :: AssetType
  createNewAsset :: "string \<Rightarrow> ('b, 'u, 'i) FieldAssetEditor \<Rightarrow> 'p \<Rightarrow> 'b Asset \<times> 'p"
  getValueText :: "('b, 'u, 'i) FieldAssetEditor \<Rightarrow> string"
  onEditorClose :: "'b Asset \<Rightarrow> 'p \<Rightarrow> 'p"

text \<open>The methods of the base class \<^verbatim>\<open>Blockly.Events.BlockChange\<close>.\<close>

record 'p BlockChange =
  super_isNull :: "BlocklyTilemapChange \<Rightarrow> bool"
  super_run :: "BlocklyTilemapChange \<Rightarrow> bool \<Rightarrow> 'p Host \<Rightarrow> 'p Host"
  getEventWorkspace :: "BlocklyTilemapChange \<Rightarrow> 'p Host \<Rightarrow> string list"

text \<open>The view returned by \<^verbatim>\<open>pxt.react.getFieldEditorView\<close>, as the file sets it up.\<close>

record ('b, 'u, 'i) FieldEditorView =
  editorKind :: string
  view_asset :: "'b Asset"
  view_params :: ParsedFieldAssetEditorOptions
  view_blocksInfo :: "'i option"
  restoredPersistentData :: "'u option"

subsection \<open>FieldAssetEditor: reading the value\<close>

definition getValue :: "'b Pxt \<Rightarrow> ('p, 'b, 'u, 'i) Subclass \<Rightarrow> ('b, 'u, 'i) FieldAssetEditor \<Rightarrow> string" where
  "getValue X S f =
     (if isGreyBlock f then htmlUnescape X (valueText f) else getValueText S f)"

definition getDisplayText :: "'b Pxt \<Rightarrow> ('b, 'u, 'i) FieldAssetEditor \<Rightarrow> string" where
  "getDisplayText X f =
     (let text = htmlUnescape X (valueText f)
      in substr text 0 (indexOf text CHR ''('') @ ''(...)'')"

subsection \<open>FieldAssetEditor: the preview\<close>

text \<open>
  The URI of the preview image. \<^verbatim>\<open>frames[0]\<close> of an animation without frames is
  \<^verbatim>\<open>undefined\<close>, and \<^verbatim>\<open>pxt.sprite.Bitmap.fromData(undefined)\<close> throws.
\<close>

definition previewURI :: "'b Pxt \<Rightarrow> bool \<Rightarrow> 'b Asset \<Rightarrow> error + string" where
  "previewURI X lm a =
     (case content a of
        ImageContent bitmap \<Rightarrow> Inr (bitmapToImageURI X bitmap PREVIEW_WIDTH lm)
      | TileContent bitmap \<Rightarrow> Inr (bitmapToImageURI X bitmap PREVIEW_WIDTH lm)
      | AnimationContent frames \<Rightarrow>
          (case frames of
             [] \<Rightarrow> Inl TypeError
           | frame # rest \<Rightarrow> Inr (bitmapToImageURI X frame PREVIEW_WIDTH lm))
      | TilemapContent data \<Rightarrow> Inr (tilemapToImageURI X data PREVIEW_WIDTH lm))"

text \<open>
  \<^verbatim>\<open>redrawPreview\<close>. Without the SVG group it returns at once. For a grey block the
  text element that Blockly creates and renders is one \<open>TextElement\<close> child. Otherwise
  the group is cleared and the background appended, then the image if the field holds an
  asset; an exception raised while the URI is computed leaves the method.
\<close>

definition redrawPreview ::
  "'b Pxt \<Rightarrow> ('b, 'u, 'i) FieldAssetEditor \<Rightarrow> error + ('b, 'u, 'i) FieldAssetEditor" where
  "redrawPreview X f =
     (case fieldGroup f of
        None \<Rightarrow> Inr f
      | Some children \<Rightarrow>
          if isGreyBlock f then Inr (f\<lparr>fieldGroup := Some [TextElement]\<rparr>)
          else
            (let bg = Rect X_PADDING Y_PADDING BG_WIDTH BG_WIDTH ''blocklySpriteField'' ''#898989'' 1 4
             in case asset f of
                  None \<Rightarrow> Inr (f\<lparr>fieldGroup := Some [bg]\<rparr>)
                | Some a \<Rightarrow>
                    (case previewURI X (lightMode f) a of
                       Inl e \<Rightarrow> Inl e
                     | Inr dataURI \<Rightarrow>
                         (let img = ImageElement dataURI (X_PADDING + BG_PADDING)
                                      (Y_PADDING + BG_PADDING) PREVIEW_WIDTH PREVIEW_WIDTH
                          in Inr (f\<lparr>fieldGroup := Some [bg, img]\<rparr>)))))"

definition onInit ::
  "'b Pxt \<Rightarrow> ('b, 'u, 'i) FieldAssetEditor \<Rightarrow> error + ('b, 'u, 'i) FieldAssetEditor" where
  "onInit X f = redrawPreview X f"

subsection \<open>FieldAssetEditor: bookkeeping in the shared project\<close>

text \<open>
  \<^verbatim>\<open>getBlockData()\<close> and \<^verbatim>\<open>setBlockData(v)\<close> of the base class read and write the
  data of \<^verbatim>\<open>this.sourceBlock_\<close>; on a field without a source block the property read
  on \<^verbatim>\<open>undefined\<close> throws. \<^verbatim>\<open>updateAssetMeta\<close> and \<^verbatim>\<open>parseValueText\<close> call
  them only where they have tested \<^verbatim>\<open>this.sourceBlock_\<close>, and use the slot directly.
\<close>

definition getBlockData :: "('b, 'u, 'i) FieldAssetEditor \<Rightarrow> error + string option" where
  "getBlockData f =
     (case sourceBlock f of
        None \<Rightarrow> Inl TypeError
      | Some b \<Rightarrow> Inr (blockData f))"

definition setBlockData ::
  "string option \<Rightarrow> ('b, 'u, 'i) FieldAssetEditor \<Rightarrow> error + ('b, 'u, 'i) FieldAssetEditor" where
  "setBlockData v f =
     (case sourceBlock f of
        None \<Rightarrow> Inl TypeError
      | Some b \<Rightarrow> Inr (f\<lparr>blockData := v\<rparr>))"

definition isTemporaryAsset :: "('b, 'u, 'i) FieldAssetEditor \<Rightarrow> error + bool" where
  "isTemporaryAsset f =
     (case asset f of
        None \<Rightarrow> Inr False
      | Some a \<Rightarrow>
          (case meta a of
             None \<Rightarrow> Inl TypeError
           | Some m \<Rightarrow> Inr (\<not> truthy (displayName m))))"

definition updateAssetListener ::
  "('p, 'b, 'u, 'i) Subclass \<Rightarrow> ('p, 'b) TilemapProject \<Rightarrow> ('b, 'u, 'i) FieldAssetEditor \<Rightarrow> 'p Host \<Rightarrow> 'p Host" where
  "updateAssetListener S P f h =
     (let p1 = removeChangeListener P (getAssetType S) (listener f) (project h)
      in case asset f of
           None \<Rightarrow> h\<lparr>project := p1\<rparr>
         | Some a \<Rightarrow> h\<lparr>project := addChangeListener P a (listener f) p1\<rparr>)"

definition emptyMeta :: AssetMetadata where
  "emptyMeta = \<lparr>displayName = None, blockIDs = None\<rparr>"

text \<open>
  Lines 290 to 296 of \<^verbatim>\<open>updateAssetMeta\<close> create \<^verbatim>\<open>meta\<close> and
  \<^verbatim>\<open>meta.blockIDs\<close> when they are missing. \<open>assetBlockIDs a\<close> is the array
  \<^verbatim>\<open>meta.blockIDs\<close> after these lines, and \<open>setBlockIDs ids a\<close> is the asset with
  that property set to \<open>ids\<close> (on the \<^verbatim>\<open>meta\<close> it has, or on a fresh one).
\<close>

definition assetBlockIDs :: "'b Asset \<Rightarrow> string list" where
  "assetBlockIDs a =
     (case meta a of
        None \<Rightarrow> []
      | Some m \<Rightarrow> (case blockIDs m of None \<Rightarrow> [] | Some l \<Rightarrow> l))"

definition setBlockIDs :: "string list \<Rightarrow> 'b Asset \<Rightarrow> 'b Asset" where
  "setBlockIDs ids a =
     a\<lparr>meta := Some ((case meta a of None \<Rightarrow> emptyMeta | Some m \<Rightarrow> m)\<lparr>blockIDs := Some ids\<rparr>)\<rparr>"

text \<open>
  \<^verbatim>\<open>updateAssetMeta\<close>. \<^verbatim>\<open>blockIDs.indexOf(id) === -1\<close> is \<open>id \<notin> set ids\<close>. The
  condition of the clone is evaluated left to right, so \<^verbatim>\<open>isTemporaryAsset()\<close> runs
  only when \<^verbatim>\<open>blockIDs.length\<close> is not zero. Writing \<^verbatim>\<open>meta.blockIDs\<close> of the
  duplicate throws when the project returned it without \<^verbatim>\<open>meta\<close>; otherwise the
  duplicate's list is emptied and the block's id pushed.
\<close>

definition updateAssetMeta ::
  "('p, 'b) TilemapProject \<Rightarrow> ('b, 'u, 'i) FieldAssetEditor \<Rightarrow> 'p Host \<Rightarrow>
     error + (('b, 'u, 'i) FieldAssetEditor \<times> 'p Host)" where
  "updateAssetMeta P f h =
     (case asset f of
        None \<Rightarrow> Inr (f, h)
      | Some a \<Rightarrow>
          (let ids = assetBlockIDs a;
               a1 = setBlockIDs ids a;
               f1 = f\<lparr>asset := Some a1\<rparr>
           in case sourceBlock f1 of
                None \<Rightarrow> Inr (f1, h\<lparr>project := updateAsset P a1 (project h)\<rparr>)
              | Some b \<Rightarrow>
                  if block_id b \<notin> set ids
                  then
                    (case (if ids \<noteq> [] then isTemporaryAsset f1 else Inr False) of
                       Inl e \<Rightarrow> Inl e
                     | Inr temporary \<Rightarrow>
                         if ids \<noteq> [] \<and> temporary \<and> list_ex (getBlockById (workspace b)) ids
                         then
                           (let (d, p1) = duplicateAsset P a1 (project h)
                            in case meta d of
                                 None \<Rightarrow> Inl TypeError
                               | Some dm \<Rightarrow>
                                   (let d1 = setBlockIDs ([] @ [block_id b]) d
                                    in Inr (f1\<lparr>asset := Some d1, blockData := Some (asset_id d1)\<rparr>,
                                            h\<lparr>project := updateAsset P d1 p1\<rparr>)))
                         else
                           (let a2 = setBlockIDs (ids @ [block_id b]) a1
                            in Inr (f1\<lparr>asset := Some a2, blockData := Some (asset_id a2)\<rparr>,
                                    h\<lparr>project := updateAsset P a2 (project h)\<rparr>)))
                  else Inr (f1\<lparr>blockData := Some (asset_id a1)\<rparr>,
                            h\<lparr>project := updateAsset P a1 (project h)\<rparr>)))"

text \<open>
  Lines 242 to 248 of \<^verbatim>\<open>parseValueText\<close>: the block data is cleared and the source
  block's id is taken out of the asset the field held so far.
\<close>

definition releaseAsset ::
  "('p, 'b) TilemapProject \<Rightarrow> Block \<Rightarrow> ('b, 'u, 'i) FieldAssetEditor \<Rightarrow> 'p Host \<Rightarrow>
     error + (('b, 'u, 'i) FieldAssetEditor \<times> 'p Host)" where
  "releaseAsset P b f h =
     (let f1 = f\<lparr>blockData := None\<rparr>
      in case asset f1 of
           None \<Rightarrow> Inr (f1, h)
         | Some a \<Rightarrow>
             (case meta a of
                None \<Rightarrow> Inl TypeError
              | Some m \<Rightarrow>
                  (case blockIDs m of
                     None \<Rightarrow> Inr (f1, h)
                   | Some ids \<Rightarrow>
                       (let a1 = a\<lparr>meta := Some (m\<lparr>blockIDs := Some (filter (\<lambda>i. i \<noteq> block_id b) ids)\<rparr>)\<rparr>
                        in Inr (f1\<lparr>asset := Some a1\<rparr>,
                                h\<lparr>project := updateAsset P a1 (project h)\<rparr>)))))"

definition parseValueText ::
  "'b Pxt \<Rightarrow> ('p, 'b, 'u, 'i) Subclass \<Rightarrow> ('p, 'b) TilemapProject \<Rightarrow> string \<Rightarrow>
     ('b, 'u, 'i) FieldAssetEditor \<Rightarrow> 'p Host \<Rightarrow> error + (('b, 'u, 'i) FieldAssetEditor \<times> 'p Host)" where
  "parseValueText X S P newText f h =
     (let newText1 = htmlUnescape X newText
      in case sourceBlock f of
           None \<Rightarrow> Inr (f, h)
         | Some b \<Rightarrow>
             if isInFlyout b then Inr (f, h)
             else
               (let id = blockData f;
                    existing = lookupAsset P (getAssetType S) id (project h);
                    chosen =
                      (case existing of
                         Some e \<Rightarrow> Inr (f\<lparr>asset := Some e\<rparr>, h)
                       | None \<Rightarrow>
                           (case releaseAsset P b f h of
                              Inl e \<Rightarrow> Inl e
                            | Inr (f2, h2) \<Rightarrow>
                                (let (created, p) = createNewAsset S newText1 f2 (project h2)
                                 in Inr (f2\<lparr>asset := Some created\<rparr>, h2\<lparr>project := p\<rparr>))))
                in case chosen of
                     Inl e \<Rightarrow> Inl e
                   | Inr (f3, h3) \<Rightarrow>
                       (case updateAssetMeta P f3 h3 of
                          Inl e \<Rightarrow> Inl e
                        | Inr (f4, h4) \<Rightarrow> Inr (f4, updateAssetListener S P f4 h4))))"

definition onValueChanged ::
  "'b Pxt \<Rightarrow> ('p, 'b, 'u, 'i) Subclass \<Rightarrow> ('p, 'b) TilemapProject \<Rightarrow> string \<Rightarrow>
     ('b, 'u, 'i) FieldAssetEditor \<Rightarrow> 'p Host \<Rightarrow>
     error + (string \<times> ('b, 'u, 'i) FieldAssetEditor \<times> 'p Host)" where
  "onValueChanged X S P newText f h =
     (case parseValueText X S P newText f h of
        Inl e \<Rightarrow> Inl e
      | Inr (f1, h1) \<Rightarrow>
          (case redrawPreview X f1 of
             Inl e \<Rightarrow> Inl e
           | Inr f2 \<Rightarrow> Inr (getValueText S f2, f2, h1)))"

definition assetChangeListener ::
  "'b Pxt \<Rightarrow> ('p, 'b, 'u, 'i) Subclass \<Rightarrow> ('p, 'b) TilemapProject \<Rightarrow>
     ('b, 'u, 'i) FieldAssetEditor \<Rightarrow> 'p Host \<Rightarrow> error + ('b, 'u, 'i) FieldAssetEditor" where
  "assetChangeListener X S P f h =
     (if pendingEdit f then Inr f
      else
        (case getBlockData f of
           Inl e \<Rightarrow> Inl e
         | Inr dataId \<Rightarrow>
             (let f1 = (if truthy dataId
                        then f\<lparr>asset := lookupAsset P (getAssetType S) dataId (project h)\<rparr>
                        else f)
              in redrawPreview X f1)))"

definition disposeOfTemporaryAsset ::
  "('p, 'b) TilemapProject \<Rightarrow> ('b, 'u, 'i) FieldAssetEditor \<Rightarrow> 'p Host \<Rightarrow>
     error + (('b, 'u, 'i) FieldAssetEditor \<times> 'p Host)" where
  "disposeOfTemporaryAsset P f h =
     (case isTemporaryAsset f of
        Inl e \<Rightarrow> Inl e
      | Inr temporary \<Rightarrow>
          (case asset f of
             Some a \<Rightarrow>
               if temporary
               then
                 (let h1 = h\<lparr>project := removeAsset P a (project h)\<rparr>
                  in case setBlockData (Some []) f of
                       Inl e \<Rightarrow> Inl e
                     | Inr f1 \<Rightarrow> Inr (f1\<lparr>asset := None\<rparr>, h1))
               else Inr (f, h)
           | None \<Rightarrow> Inr (f, h)))"

definition onDispose ::
  "('p, 'b, 'u, 'i) Subclass \<Rightarrow> ('p, 'b) TilemapProject \<Rightarrow> ('b, 'u, 'i) FieldAssetEditor \<Rightarrow> 'p Host \<Rightarrow>
     error + (('b, 'u, 'i) FieldAssetEditor \<times> 'p Host)" where
  "onDispose S P f h =
     (case disposeOfTemporaryAsset P f h of
        Inl e \<Rightarrow> Inl e
      | Inr (f1, h1) \<Rightarrow>
          Inr (f1, h1\<lparr>project := removeChangeListener P (getAssetType S) (listener f1) (project h1)\<rparr>))"

subsection \<open>FieldAssetEditor: opening the editor\<close>

text \<open>
  The loop of the tilemap case: every project tile missing from the tilemap's tileset is
  appended to it, and the id of every tile that another asset of the project uses
  (\<^verbatim>\<open>project.isAssetUsed(tile, null, [this.asset.id])\<close>) is appended to the project
  references.
\<close>

fun addProjectTiles ::
  "('p, 'b) TilemapProject \<Rightarrow> 'p \<Rightarrow> string \<Rightarrow> 'b TileAsset list \<Rightarrow> 'b TilemapData \<Rightarrow> 'b TilemapData" where
  "addProjectTiles P p aid [] d = d"
| "addProjectTiles P p aid (tile # rest) d =
     (let d1 = (if \<not> list_ex (\<lambda>t. tile_id t = tile_id tile) (tiles (tileset d))
                then d\<lparr>tileset := (tileset d)\<lparr>tiles := tiles (tileset d) @ [tile]\<rparr>\<rparr>
                else d);
          d2 = (if isAssetUsed P tile [aid] p
                then d1\<lparr>projectReferences := projectReferences d1 @ [tile_id tile]\<rparr>
                else d1)
      in addProjectTiles P p aid rest d2)"

text \<open>
  \<^verbatim>\<open>showEditor_\<close> up to \<^verbatim>\<open>fv.show()\<close>. The result holds the view that was shown
  (\<open>None\<close> when the method returned before opening one). Reading
  \<^verbatim>\<open>this.asset.type\<close> throws when the field holds no asset.
\<close>

definition showEditor ::
  "('p, 'b) TilemapProject \<Rightarrow> ('b, 'u, 'i) FieldAssetEditor \<Rightarrow> 'p Host \<Rightarrow>
     error + (('b, 'u, 'i) FieldAssetEditor \<times> 'p Host \<times> ('b, 'u, 'i) FieldEditorView option)" where
  "showEditor P f h =
     (if isGreyBlock f then Inr (f, h, None)
      else
        (let f1 = f\<lparr>params_blocksInfo := blocksInfo f\<rparr>
         in case asset f1 of
              None \<Rightarrow> Inl TypeError
            | Some a \<Rightarrow>
                (let (kind, a1, p1) =
                       (case content a of
                          TileContent bitmap \<Rightarrow> (''image-editor'', a, project h)
                        | ImageContent bitmap \<Rightarrow> (''image-editor'', a, project h)
                        | AnimationContent frames \<Rightarrow> (''animation-editor'', a, project h)
                        | TilemapContent d \<Rightarrow>
                            (let (allTiles, p) = getProjectTiles P (tileWidth (tileset d)) True (project h);
                                 d1 = d\<lparr>projectReferences := []\<rparr>;
                                 d2 = addProjectTiles P p (asset_id a) (tiles allTiles) d1
                             in (''tilemap-editor'', a\<lparr>content := TilemapContent d2\<rparr>, p)));
                     f2 = f1\<lparr>asset := Some a1\<rparr>;
                     fv = \<lparr>editorKind = kind, view_asset = a1, view_params = params f2,
                           view_blocksInfo = params_blocksInfo f2,
                           restoredPersistentData = undoRedoState f2\<rparr>
                 in Inr (f2, h\<lparr>project := pushUndo P p1\<rparr>, Some fv))))"

text \<open>
  The constructor of \<^verbatim>\<open>BlocklyTilemapChange\<close> (lines 337 to 339) hands the block, the
  element, the name and the two values to the constructor of
  \<^verbatim>\<open>Blockly.Events.BlockChange\<close>, then sets the two revisions. The base constructor
  returns at once when the block is \<^verbatim>\<open>null\<close> and leaves a blank event; otherwise it
  records the block's id and the four arguments, and the event copies the global
  \<^verbatim>\<open>Blockly.Events.recordUndo\<close>. The block is given by its id.
\<close>

definition newBlocklyTilemapChange ::
  "bool \<Rightarrow> string option \<Rightarrow> string \<Rightarrow> string \<Rightarrow> EventValue \<Rightarrow> EventValue \<Rightarrow> int \<Rightarrow> int \<Rightarrow>
     BlocklyTilemapChange" where
  "newBlocklyTilemapChange globalRecordUndo block el nm ov nv oldRev newRev =
     (case block of
        None \<Rightarrow>
          \<lparr>blockId = None, element = None, ev_name = None, oldValue = None, newValue = None,
           oldRevision = oldRev, newRevision = newRev, recordUndo = False\<rparr>
      | Some i \<Rightarrow>
          \<lparr>blockId = Some i, element = Some el, ev_name = Some nm, oldValue = Some ov,
           newValue = Some nv, oldRevision = oldRev, newRevision = newRev,
           recordUndo = globalRecordUndo\<rparr>)"

text \<open>
  The callback given to \<^verbatim>\<open>fv.onHide\<close>. \<open>result\<close> is \<^verbatim>\<open>fv.getResult()\<close> (\<open>None\<close>
  when falsy) and \<open>persistent\<close> is \<^verbatim>\<open>fv.getPersistentData()\<close>. An exception raised
  by \<^verbatim>\<open>updateAssetMeta\<close> or \<^verbatim>\<open>redrawPreview\<close> leaves the callback before the
  event is fired and before \<^verbatim>\<open>pendingEdit\<close> is cleared.
\<close>

definition onHide ::
  "'b Pxt \<Rightarrow> ('p, 'b, 'u, 'i) Subclass \<Rightarrow> ('p, 'b) TilemapProject \<Rightarrow>
     'b Asset option \<Rightarrow> 'u option \<Rightarrow> ('b, 'u, 'i) FieldAssetEditor \<Rightarrow> 'p Host \<Rightarrow>
     error + (('b, 'u, 'i) FieldAssetEditor \<times> 'p Host)" where
  "onHide X S P result persistent f h =
     (case result of
        None \<Rightarrow> Inr (f, h)
      | Some r \<Rightarrow>
          (let old = getValue X S f
           in if assetEquals X (asset f) r then Inr (f, h)
              else
                (let f1 = f\<lparr>pendingEdit := True, asset := Some r\<rparr>;
                     lastRevision = revision P (project h);
                     h1 = h\<lparr>project := onEditorClose S r (project h)\<rparr>;
                     h2 = updateAssetListener S P f1 h1
                 in case updateAssetMeta P f1 h2 of
                      Inl e \<Rightarrow> Inl e
                    | Inr (f3, h3) \<Rightarrow>
                        (case redrawPreview X f3 of
                           Inl e \<Rightarrow> Inl e
                         | Inr f4 \<Rightarrow>
                             (let f5 = f4\<lparr>undoRedoState := persistent\<rparr>;
                                  h5 = (case sourceBlock f5 of
                                          None \<Rightarrow> h3
                                        | Some b \<Rightarrow>
                                            if eventsEnabled h3
                                            then h3\<lparr>fired := fired h3 @
                                                   [newBlocklyTilemapChange (recordUndoDefault h3)
                                                      (Some (block_id b)) ''field'' (name f5)
                                                      (VString old) (VString (getValue X S f5))
                                                      lastRevision (revision P (project h3))]\<rparr>
                                            else h3)
                              in Inr (f5\<lparr>pendingEdit := False\<rparr>, h5))))))"

subsection \<open>BlocklyTilemapChange\<close>

definition isNull :: "'p BlockChange \<Rightarrow> BlocklyTilemapChange \<Rightarrow> bool" where
  "isNull B ev = (oldRevision ev = newRevision ev \<and> super_isNull B ev)"

text \<open>
  \<^verbatim>\<open>run(forward)\<close>. The new event is built from
  \<^verbatim>\<open>ws.getBlockById(this.blockId)\<close>, which is \<^verbatim>\<open>null\<close> when the workspace has no
  such block; the event is then blank but for its revisions.
\<close>

definition run ::
  "'p BlockChange \<Rightarrow> ('p, 'b) TilemapProject \<Rightarrow> BlocklyTilemapChange \<Rightarrow> bool \<Rightarrow> 'p Host \<Rightarrow> 'p Host" where
  "run B P this forward h =
     (let h1 = (if forward
                then super_run B this forward (h\<lparr>project := redo P (project h)\<rparr>)
                else super_run B this forward (h\<lparr>project := undo P (project h)\<rparr>));
          ws = getEventWorkspace B this h1;
          block = (case blockId this of
                     None \<Rightarrow> None
                   | Some i \<Rightarrow> if getBlockById ws i then Some i else None);
          ev = newBlocklyTilemapChange (recordUndoDefault h1) block ''tilemap-revision''
                 ''revision'' VNull (VNumber (revision P (project h1))) 0 0;
          ev1 = ev\<lparr>recordUndo := False\<rparr>
      in h1\<lparr>fired := fired h1 @ [ev1]\<rparr>)"

subsection \<open>A small host for evaluating the methods\<close>

text \<open>
  A project that keeps its assets in a list next to a revision counter, helpers that
  compare assets structurally and name the URI after its source, a subclass for images
  whose value text is the bitmap, and a base event that is null when old and new value
  agree. Bitmap data are strings here. They serve to run the methods on concrete fields.
\<close>

definition sampleCopy :: "string Asset \<Rightarrow> string Asset" where
  "sampleCopy a = setBlockIDs (assetBlockIDs a) (a\<lparr>asset_id := asset_id a @ ''-copy''\<rparr>)"

definition sampleProject :: "(string Asset list \<times> int, string) TilemapProject" where
  "sampleProject =
     \<lparr>revision = snd,
      lookupAsset = (\<lambda>ty i p. find (\<lambda>a. Some (asset_id a) = i \<and> asset_type a = ty) (fst p)),
      updateAsset = (\<lambda>a p. (a # filter (\<lambda>x. asset_id x \<noteq> asset_id a) (fst p), snd p + 1)),
      duplicateAsset = (\<lambda>a p. (sampleCopy a, (sampleCopy a # fst p, snd p + 1))),
      removeAsset = (\<lambda>a p. (filter (\<lambda>x. asset_id x \<noteq> asset_id a) (fst p), snd p + 1)),
      pushUndo = (\<lambda>p. p),
      undo = (\<lambda>p. (fst p, snd p - 1)),
      redo = (\<lambda>p. (fst p, snd p + 1)),
      addChangeListener = (\<lambda>a l p. p),
      removeChangeListener = (\<lambda>ty l p. p),
      getProjectTiles = (\<lambda>w c p. (\<lparr>tileWidth = w,
                                          tiles = [\<lparr>tile_id = ''t1'', tile_bitmap = ''11''\<rparr>]\<rparr>, p)),
      isAssetUsed = (\<lambda>t skip p. True)\<rparr>"

definition samplePxt :: "string Pxt" where
  "samplePxt =
     \<lparr>htmlUnescape = (\<lambda>s. s),
      assetEquals = (\<lambda>a b. a = Some b),
      bitmapToImageURI = (\<lambda>d w lm. ''bitmap:'' @ d),
      tilemapToImageURI = (\<lambda>d w lm. ''tilemap'')\<rparr>"

definition sampleSubclass :: "(string Asset list \<times> int, string, nat, nat) Subclass" where
  "sampleSubclass =
     \<lparr>getAssetType = Image,
      createNewAsset = (\<lambda>t f p. (\<lparr>asset_id = ''new'', meta = None, content = ImageContent t\<rparr>, p)),
      getValueText = (\<lambda>f. case asset f of
                             None \<Rightarrow> []
                           | Some a \<Rightarrow> (case content a of ImageContent b \<Rightarrow> b | _ \<Rightarrow> asset_id a)),
      onEditorClose = (\<lambda>a p. p)\<rparr>"

definition sampleBlockChange :: "(string Asset list \<times> int) BlockChange" where
  "sampleBlockChange =
     \<lparr>super_isNull = (\<lambda>ev. oldValue ev = newValue ev),
      super_run = (\<lambda>ev forward h. h),
      getEventWorkspace = (\<lambda>ev h. [''b1'', ''b2''])\<rparr>"

definition sampleAsset :: "string Asset" where
  "sampleAsset =
     \<lparr>asset_id = ''img1'',
      meta = Some \<lparr>displayName = None, blockIDs = Some [''b1'']\<rparr>,
      content = ImageContent ''0110''\<rparr>"

definition sampleResult :: "string Asset" where
  "sampleResult = sampleAsset\<lparr>content := ImageContent ''1001''\<rparr>"

definition sampleOther :: "string Asset" where
  "sampleOther =
     \<lparr>asset_id = ''img2'',
      meta = Some \<lparr>displayName = None, blockIDs = Some [''b2'']\<rparr>,
      content = ImageContent ''1001''\<rparr>"

definition sampleTilemap :: "string Asset" where
  "sampleTilemap =
     sampleAsset\<lparr>content := TilemapContent
        \<lparr>tileset = \<lparr>tileWidth = 16, tiles = []\<rparr>, projectReferences = [''t0'']\<rparr>\<rparr>"

definition sampleBlock :: Block where
  "sampleBlock = \<lparr>block_id = ''b1'', isInFlyout = False, workspace = [''b1'', ''b2'']\<rparr>"

definition sampleField :: "(string, nat, nat) FieldAssetEditor" where
  "sampleField =
     \<lparr>asset = Some sampleAsset,
      params = \<lparr>initWidth = 16, initHeight = 16, disableResize = False\<rparr>,
      params_blocksInfo = None, blocksInfo = None, lightMode = False,
      undoRedoState = None, pendingEdit = False, isGreyBlock = False,
      valueText = ''img(0110)'', name = ''img'',
      sourceBlock = Some sampleBlock,
      fieldGroup = Some [], blockData = Some ''img1'', listener = 0\<rparr>"

definition sampleHost :: "(string Asset list \<times> int) Host" where
  "sampleHost =
     \<lparr>project = ([sampleAsset], 7), eventsEnabled = True, recordUndoDefault = True, fired = []\<rparr>"

section \<open>Properties\<close>

subsection \<open>String helpers\<close>

lemma indexOfFrom_absent: "c \<notin> set s \<Longrightarrow> indexOfFrom s c i = -1"
  by (induction s arbitrary: i) auto

lemma indexOfFrom_present:
  "c \<in> set s \<Longrightarrow> indexOfFrom s c i = i + int (length (takeWhile (\<lambda>x. x \<noteq> c) s))"
  by (induction s arbitrary: i) auto

lemma substr_prefix: "0 \<le> n \<Longrightarrow> substr s 0 n = take (nat n) s"
  by (auto simp: substr_def Let_def min_def max_def)

lemma substr_negative: "n < 0 \<Longrightarrow> substr s 0 n = []"
  by (simp add: substr_def Let_def)

lemma take_takeWhile_length: "take (length (takeWhile Q s)) s = takeWhile Q s"
  by (induction s) auto

lemma truncate_at_char:
  "substr s 0 (indexOf s c) = (if c \<in> set s then takeWhile (\<lambda>x. x \<noteq> c) s else [])"
  by (simp add: indexOf_def indexOfFrom_absent indexOfFrom_present substr_prefix substr_negative
      take_takeWhile_length)

subsection \<open>Parsing the field options\<close>

text \<open>
  Claim C6. \<open>parseFieldOptions\<close> is a total function of its argument, the missing
  options object included. The width and the height are 16 unless \<open>parseInt\<close> of the
  corresponding option yields a number, which is then the result; \<open>disableResize\<close> is
  true exactly when the option is a non-empty string that lowercases to \<^verbatim>\<open>"true"\<close>
  or equals \<^verbatim>\<open>"1"\<close>.
\<close>

theorem parseFieldOptions_total:
  "initWidth (parseFieldOptions opts) =
     (case opts of None \<Rightarrow> 16
      | Some os \<Rightarrow> (case parseInt (opt_initWidth os) of None \<Rightarrow> 16 | Some n \<Rightarrow> n))
   \<and> initHeight (parseFieldOptions opts) =
     (case opts of None \<Rightarrow> 16
      | Some os \<Rightarrow> (case parseInt (opt_initHeight os) of None \<Rightarrow> 16 | Some n \<Rightarrow> n))
   \<and> disableResize (parseFieldOptions opts) =
     (\<exists>os d. opts = Some os \<and> opt_disableResize os = Some d \<and> d \<noteq> []
        \<and> (toLowerCase d = ''true'' \<or> d = ''1''))"
  by (auto simp: parseFieldOptions_def withDefault_def Let_def split: option.splits)

theorem parseFieldOptions_total_witness:
  "parseFieldOptions (Some \<lparr>opt_initWidth = Some ''32'', opt_initHeight = Some ''abc'',
       opt_disableResize = Some ''TRUE''\<rparr>)
     = \<lparr>initWidth = 32, initHeight = 16, disableResize = True\<rparr>
   \<and> parseFieldOptions None = \<lparr>initWidth = 16, initHeight = 16, disableResize = False\<rparr>"
proof -
  have w: "parseInt (Some ''32'') = Some 32" by code_simp
  have h: "parseInt (Some ''abc'') = None" by code_simp
  have l: "toLowerCase ''TRUE'' = ''true''" by code_simp
  show ?thesis
    using parseFieldOptions_total
            [of "Some \<lparr>opt_initWidth = Some ''32'', opt_initHeight = Some ''abc'',
                        opt_disableResize = Some ''TRUE''\<rparr>"]
          parseFieldOptions_total [of None] w h l
    by (simp add: ParsedFieldAssetEditorOptions.equality)
qed

subsection \<open>What the preview draws\<close>

lemma previewURI_drawable:
  "content a \<noteq> AnimationContent [] \<Longrightarrow>
   previewURI X lm a =
     Inr (case content a of
            ImageContent bitmap \<Rightarrow> bitmapToImageURI X bitmap 32 lm
          | TileContent bitmap \<Rightarrow> bitmapToImageURI X bitmap 32 lm
          | AnimationContent frames \<Rightarrow> bitmapToImageURI X (hd frames) 32 lm
          | TilemapContent data \<Rightarrow> tilemapToImageURI X data 32 lm)"
  by (simp add: previewURI_def PREVIEW_WIDTH_def split: AssetContent.splits list.splits)

lemma redrawPreview_no_group: "fieldGroup f = None \<Longrightarrow> redrawPreview X f = Inr f"
  by (simp add: redrawPreview_def)

lemma redrawPreview_grey:
  "fieldGroup f = Some c \<Longrightarrow> isGreyBlock f \<Longrightarrow>
   redrawPreview X f = Inr (f\<lparr>fieldGroup := Some [TextElement]\<rparr>)"
  by (simp add: redrawPreview_def)

lemma redrawPreview_no_asset:
  "fieldGroup f = Some c \<Longrightarrow> \<not> isGreyBlock f \<Longrightarrow> asset f = None \<Longrightarrow>
   redrawPreview X f =
     Inr (f\<lparr>fieldGroup := Some [Rect 5 1 40 40 ''blocklySpriteField'' ''#898989'' 1 4]\<rparr>)"
  by (simp add: redrawPreview_def Let_def X_PADDING_def Y_PADDING_def BG_PADDING_def BG_WIDTH_def
      PREVIEW_WIDTH_def)

lemma redrawPreview_image:
  "fieldGroup f = Some c \<Longrightarrow> \<not> isGreyBlock f \<Longrightarrow> asset f = Some a \<Longrightarrow>
   previewURI X (lightMode f) a = Inr uri \<Longrightarrow>
   redrawPreview X f =
     Inr (f\<lparr>fieldGroup := Some [Rect 5 1 40 40 ''blocklySpriteField'' ''#898989'' 1 4,
                                 ImageElement uri 9 5 32 32]\<rparr>)"
  by (simp add: redrawPreview_def Let_def X_PADDING_def Y_PADDING_def BG_PADDING_def BG_WIDTH_def
      PREVIEW_WIDTH_def)

lemma redrawPreview_throws:
  "fieldGroup f = Some c \<Longrightarrow> \<not> isGreyBlock f \<Longrightarrow> asset f = Some a \<Longrightarrow>
   content a = AnimationContent [] \<Longrightarrow> redrawPreview X f = Inl TypeError"
  by (simp add: redrawPreview_def Let_def previewURI_def)

lemma redrawPreview_drawn:
  assumes "\<forall>a. asset f = Some a \<longrightarrow> content a \<noteq> AnimationContent []"
  shows "redrawPreview X f =
     Inr (f\<lparr>fieldGroup :=
            (case fieldGroup f of
               None \<Rightarrow> None
             | Some c \<Rightarrow>
                 Some (if isGreyBlock f then [TextElement]
                       else (case asset f of
                               None \<Rightarrow> [Rect 5 1 40 40 ''blocklySpriteField'' ''#898989'' 1 4]
                             | Some a \<Rightarrow>
                                 [Rect 5 1 40 40 ''blocklySpriteField'' ''#898989'' 1 4,
                                  ImageElement
                                    (case content a of
                                       ImageContent bitmap \<Rightarrow> bitmapToImageURI X bitmap 32 (lightMode f)
                                     | TileContent bitmap \<Rightarrow> bitmapToImageURI X bitmap 32 (lightMode f)
                                     | AnimationContent frames \<Rightarrow>
                                         bitmapToImageURI X (hd frames) 32 (lightMode f)
                                     | TilemapContent data \<Rightarrow> tilemapToImageURI X data 32 (lightMode f))
                                    9 5 32 32])))\<rparr>)"
proof (cases "fieldGroup f")
  case None
  then show ?thesis by (simp add: redrawPreview_no_group)
next
  case (Some c)
  show ?thesis
  proof (cases "isGreyBlock f")
    case True
    with Some show ?thesis by (simp add: redrawPreview_grey)
  next
    case False
    show ?thesis
    proof (cases "asset f")
      case None
      with Some False show ?thesis by (simp add: redrawPreview_no_asset)
    next
      case (Some a)
      with assms have "content a \<noteq> AnimationContent []" by simp
      from previewURI_drawable [OF this, of X "lightMode f"] \<open>fieldGroup f = Some c\<close> False Some
      show ?thesis by (simp add: redrawPreview_image)
    qed
  qed
qed

subsection \<open>The four outcomes of updateAssetMeta\<close>

lemma setBlockIDs_same:
  "meta a = Some m \<Longrightarrow> blockIDs m = Some ids \<Longrightarrow> setBlockIDs ids a = a"
  by (simp add: setBlockIDs_def)

lemma assetBlockIDs_nonempty:
  "assetBlockIDs a \<noteq> [] \<Longrightarrow> \<exists>m. meta a = Some m \<and> blockIDs m = Some (assetBlockIDs a)"
  by (auto simp: assetBlockIDs_def split: option.splits)

lemma setBlockIDs_assetBlockIDs_nonempty:
  "assetBlockIDs a \<noteq> [] \<Longrightarrow> setBlockIDs (assetBlockIDs a) a = a"
  using assetBlockIDs_nonempty setBlockIDs_same by blast

lemma assetBlockIDs_setBlockIDs [simp]: "assetBlockIDs (setBlockIDs ids a) = ids"
  by (simp add: assetBlockIDs_def setBlockIDs_def)

lemma setBlockIDs_twice [simp]: "setBlockIDs ids (setBlockIDs ids' a) = setBlockIDs ids a"
  by (simp add: setBlockIDs_def)

lemma setBlockIDs_fields [simp]:
  "asset_id (setBlockIDs ids a) = asset_id a"
  "content (setBlockIDs ids a) = content a"
  "meta (setBlockIDs ids a) \<noteq> None"
  by (simp_all add: setBlockIDs_def)

lemma meta_setBlockIDs:
  "\<exists>m. meta (setBlockIDs ids a) = Some m \<and> blockIDs m = Some ids"
  by (simp add: setBlockIDs_def)

lemma isTemporaryAsset_setBlockIDs:
  "assetBlockIDs a \<noteq> [] \<Longrightarrow>
   isTemporaryAsset (f\<lparr>asset := Some (setBlockIDs (assetBlockIDs a) a)\<rparr>) = isTemporaryAsset (f\<lparr>asset := Some a\<rparr>)"
  by (simp add: setBlockIDs_assetBlockIDs_nonempty)

lemma isTemporaryAsset_total:
  "asset f = Some a \<Longrightarrow> meta a \<noteq> None \<Longrightarrow> \<exists>t. isTemporaryAsset f = Inr t"
  by (auto simp: isTemporaryAsset_def split: option.splits)

lemma updateAssetMeta_no_asset: "asset f = None \<Longrightarrow> updateAssetMeta P f h = Inr (f, h)"
  by (simp add: updateAssetMeta_def)

lemma updateAssetMeta_no_block:
  "asset f = Some a \<Longrightarrow> sourceBlock f = None \<Longrightarrow>
   updateAssetMeta P f h =
     Inr (f\<lparr>asset := Some (setBlockIDs (assetBlockIDs a) a)\<rparr>,
          h\<lparr>project := updateAsset P (setBlockIDs (assetBlockIDs a) a) (project h)\<rparr>)"
  by (simp add: updateAssetMeta_def Let_def)

lemma updateAssetMeta_present:
  "asset f = Some a \<Longrightarrow> sourceBlock f = Some b \<Longrightarrow> block_id b \<in> set (assetBlockIDs a) \<Longrightarrow>
   updateAssetMeta P f h =
     Inr (f\<lparr>asset := Some (setBlockIDs (assetBlockIDs a) a), blockData := Some (asset_id a)\<rparr>,
          h\<lparr>project := updateAsset P (setBlockIDs (assetBlockIDs a) a) (project h)\<rparr>)"
  by (simp add: updateAssetMeta_def Let_def)

lemma updateAssetMeta_clone:
  assumes "asset f = Some a" and "sourceBlock f = Some b"
    and "block_id b \<notin> set (assetBlockIDs a)"
    and "isTemporaryAsset f = Inr True"
    and "list_ex (getBlockById (workspace b)) (assetBlockIDs a)"
    and "meta (fst (duplicateAsset P a (project h))) \<noteq> None"
  shows "updateAssetMeta P f h =
     Inr (f\<lparr>asset := Some (setBlockIDs [block_id b] (fst (duplicateAsset P a (project h)))),
             blockData := Some (asset_id (fst (duplicateAsset P a (project h))))\<rparr>,
          h\<lparr>project := updateAsset P (setBlockIDs [block_id b] (fst (duplicateAsset P a (project h))))
                          (snd (duplicateAsset P a (project h)))\<rparr>)"
proof -
  from assms(5) have ne: "assetBlockIDs a \<noteq> []" by (auto simp: list_ex_iff)
  then have same: "setBlockIDs (assetBlockIDs a) a = a"
    by (rule setBlockIDs_assetBlockIDs_nonempty)
  have f: "f\<lparr>asset := Some a\<rparr> = f" using assms(1) by simp
  obtain d p1 where d: "duplicateAsset P a (project h) = (d, p1)" by (cases "duplicateAsset P a (project h)")
  with assms(6) obtain dm where dm: "meta d = Some dm" by auto
  show ?thesis
    using assms(1-5) ne d dm
    by (simp add: updateAssetMeta_def Let_def same f)
qed

lemma updateAssetMeta_append:
  assumes "asset f = Some a" and "sourceBlock f = Some b"
    and "block_id b \<notin> set (assetBlockIDs a)"
    and "\<not> (isTemporaryAsset f = Inr True \<and> list_ex (getBlockById (workspace b)) (assetBlockIDs a))"
  shows "updateAssetMeta P f h =
     Inr (f\<lparr>asset := Some (setBlockIDs (assetBlockIDs a @ [block_id b]) a), blockData := Some (asset_id a)\<rparr>,
          h\<lparr>project := updateAsset P (setBlockIDs (assetBlockIDs a @ [block_id b]) a) (project h)\<rparr>)"
proof (cases "assetBlockIDs a = []")
  case True
  with assms(1-3) show ?thesis by (simp add: updateAssetMeta_def Let_def)
next
  case False
  then have same: "setBlockIDs (assetBlockIDs a) a = a"
    by (rule setBlockIDs_assetBlockIDs_nonempty)
  have f: "f\<lparr>asset := Some a\<rparr> = f" using assms(1) by simp
  from False obtain m where "meta a = Some m" using assetBlockIDs_nonempty by blast
  then obtain t where t: "isTemporaryAsset f = Inr t"
    using assms(1) isTemporaryAsset_total by blast
  show ?thesis
    using assms False t
    by (auto simp: updateAssetMeta_def Let_def same f)
qed

lemma updateAssetMeta_frame:
  "updateAssetMeta P f h = Inr (f', h') \<Longrightarrow>
   f' = f\<lparr>asset := asset f', blockData := blockData f'\<rparr> \<and> h' = h\<lparr>project := project h'\<rparr>"
  by (auto simp: updateAssetMeta_def Let_def split: option.splits if_splits sum.splits prod.splits)

lemma updateAssetListener_frame:
  "updateAssetListener S P f h = h\<lparr>project := project (updateAssetListener S P f h)\<rparr>"
  by (simp add: updateAssetListener_def Let_def split: option.splits)

lemma updateAssetMeta_total:
  assumes "asset f = Some a" and "\<forall>x p. meta (fst (duplicateAsset P x p)) \<noteq> None"
  shows "\<exists>f' h' a' p'. updateAssetMeta P f h = Inr (f', h') \<and> asset f' = Some a'
           \<and> project h' = updateAsset P a' p'
           \<and> (a' = setBlockIDs (assetBlockIDs a') a
               \<or> (\<exists>b. sourceBlock f = Some b
                      \<and> a' = setBlockIDs [block_id b] (fst (duplicateAsset P a (project h)))))"
proof (cases "sourceBlock f")
  case None
  with assms(1) show ?thesis by (auto simp: updateAssetMeta_no_block)
next
  case (Some b)
  let ?ids = "assetBlockIDs a"
  consider (present) "block_id b \<in> set ?ids"
    | (clone) "block_id b \<notin> set ?ids" "isTemporaryAsset f = Inr True"
        "list_ex (getBlockById (workspace b)) ?ids"
    | (append) "block_id b \<notin> set ?ids"
        "\<not> (isTemporaryAsset f = Inr True \<and> list_ex (getBlockById (workspace b)) ?ids)"
    by blast
  then show ?thesis
  proof cases
    case present
    with assms(1) Some show ?thesis by (auto simp: updateAssetMeta_present)
  next
    case clone
    have "meta (fst (duplicateAsset P a (project h))) \<noteq> None" using assms(2) by blast
    with assms(1) Some clone show ?thesis by (auto simp: updateAssetMeta_clone)
  next
    case append
    with assms(1) Some show ?thesis by (auto simp: updateAssetMeta_append)
  qed
qed

subsection \<open>Grey blocks\<close>

text \<open>
  Claim C7. For a grey block \<open>getValue\<close> is the HTML-unescaped value text,
  \<open>showEditor\<close> returns at once with the field and the host as they were and no view
  opened, and \<open>getDisplayText\<close> is the unescaped text cut before its first
  \<^verbatim>\<open>"("\<close> followed by \<^verbatim>\<open>"(...)"\<close> (the cut part is empty when the text has no
  parenthesis).
\<close>

theorem grey_block_preserved:
  assumes "isGreyBlock f"
  shows "getValue X S f = htmlUnescape X (valueText f)
       \<and> showEditor P f h = Inr (f, h, None)
       \<and> (CHR ''('' \<in> set (htmlUnescape X (valueText f)) \<longrightarrow>
            getDisplayText X f =
              takeWhile (\<lambda>c. c \<noteq> CHR ''('') (htmlUnescape X (valueText f)) @ ''(...)'')
       \<and> (CHR ''('' \<notin> set (htmlUnescape X (valueText f)) \<longrightarrow> getDisplayText X f = ''(...)'')"
  using assms
  by (simp add: getValue_def showEditor_def getDisplayText_def Let_def truncate_at_char)

theorem grey_block_preserved_witness:
  "getValue samplePxt sampleSubclass (sampleField\<lparr>isGreyBlock := True\<rparr>) = ''img(0110)''
   \<and> showEditor sampleProject (sampleField\<lparr>isGreyBlock := True\<rparr>) sampleHost
       = Inr (sampleField\<lparr>isGreyBlock := True\<rparr>, sampleHost, None)
   \<and> getDisplayText samplePxt (sampleField\<lparr>isGreyBlock := True\<rparr>) = ''img(...)''
   \<and> getDisplayText samplePxt (sampleField\<lparr>isGreyBlock := True, valueText := ''img''\<rparr>) = ''(...)''"
  using grey_block_preserved
          [of "sampleField\<lparr>isGreyBlock := True\<rparr>" samplePxt sampleSubclass sampleProject sampleHost]
        grey_block_preserved
          [of "sampleField\<lparr>isGreyBlock := True, valueText := ''img''\<rparr>" samplePxt sampleSubclass
              sampleProject sampleHost]
  by (simp add: sampleField_def samplePxt_def)

subsection \<open>The asset change listener\<close>

text \<open>
  Claim C4, amended. While an edit is pending the listener leaves the field as it is. If
  no edit is pending, the field has a source block and the asset it comes to hold is not
  an animation without frames, the field takes the project's asset for its block-data id
  (if that id is not empty) and redraws the preview: nothing is drawn before the SVG
  group exists, a grey block gets its text, and otherwise the group holds the background
  and, when there is an asset, the image whose URI comes from that asset.
\<close>

theorem assetChangeListener_sync:
  assumes "found = (if truthy (blockData f)
                    then lookupAsset P (getAssetType S) (blockData f) (project h)
                    else asset f)"
  shows "(pendingEdit f \<longrightarrow> assetChangeListener X S P f h = Inr f)
       \<and> (\<not> pendingEdit f \<and> sourceBlock f \<noteq> None
            \<and> (\<forall>a. found = Some a \<longrightarrow> content a \<noteq> AnimationContent []) \<longrightarrow>
          assetChangeListener X S P f h =
            Inr (f\<lparr>asset := found,
                   fieldGroup :=
                     (case fieldGroup f of
                        None \<Rightarrow> None
                      | Some c \<Rightarrow>
                          Some (if isGreyBlock f then [TextElement]
                                else (case found of
                                        None \<Rightarrow> [Rect 5 1 40 40 ''blocklySpriteField'' ''#898989'' 1 4]
                                      | Some a \<Rightarrow>
                                          [Rect 5 1 40 40 ''blocklySpriteField'' ''#898989'' 1 4,
                                           ImageElement
                                             (case content a of
                                                ImageContent bitmap \<Rightarrow>
                                                  bitmapToImageURI X bitmap 32 (lightMode f)
                                              | TileContent bitmap \<Rightarrow>
                                                  bitmapToImageURI X bitmap 32 (lightMode f)
                                              | AnimationContent frames \<Rightarrow>
                                                  bitmapToImageURI X (hd frames) 32 (lightMode f)
                                              | TilemapContent data \<Rightarrow>
                                                  tilemapToImageURI X data 32 (lightMode f))
                                             9 5 32 32])))\<rparr>))"
proof (intro conjI impI)
  assume "pendingEdit f"
  then show "assetChangeListener X S P f h = Inr f" by (simp add: assetChangeListener_def)
next
  assume a: "\<not> pendingEdit f \<and> sourceBlock f \<noteq> None
            \<and> (\<forall>a. found = Some a \<longrightarrow> content a \<noteq> AnimationContent [])"
  then obtain b where b: "sourceBlock f = Some b" by auto
  let ?f1 = "f\<lparr>asset := found\<rparr>"
  have f1: "(if truthy (blockData f)
             then f\<lparr>asset := lookupAsset P (getAssetType S) (blockData f) (project h)\<rparr>
             else f) = ?f1"
    using assms by simp
  have run: "assetChangeListener X S P f h = redrawPreview X ?f1"
    using a b by (simp add: assetChangeListener_def getBlockData_def Let_def f1)
  have ok: "\<forall>a. asset ?f1 = Some a \<longrightarrow> content a \<noteq> AnimationContent []" using a by simp
  show "assetChangeListener X S P f h =
            Inr (f\<lparr>asset := found,
                   fieldGroup :=
                     (case fieldGroup f of
                        None \<Rightarrow> None
                      | Some c \<Rightarrow>
                          Some (if isGreyBlock f then [TextElement]
                                else (case found of
                                        None \<Rightarrow> [Rect 5 1 40 40 ''blocklySpriteField'' ''#898989'' 1 4]
                                      | Some a \<Rightarrow>
                                          [Rect 5 1 40 40 ''blocklySpriteField'' ''#898989'' 1 4,
                                           ImageElement
                                             (case content a of
                                                ImageContent bitmap \<Rightarrow>
                                                  bitmapToImageURI X bitmap 32 (lightMode f)
                                              | TileContent bitmap \<Rightarrow>
                                                  bitmapToImageURI X bitmap 32 (lightMode f)
                                              | AnimationContent frames \<Rightarrow>
                                                  bitmapToImageURI X (hd frames) 32 (lightMode f)
                                              | TilemapContent data \<Rightarrow>
                                                  tilemapToImageURI X data 32 (lightMode f))
                                             9 5 32 32])))\<rparr>)"
    unfolding run redrawPreview_drawn [OF ok]
    by (simp split: option.splits AssetContent.splits)
qed


theorem assetChangeListener_sync_witness:
  "assetChangeListener samplePxt sampleSubclass sampleProject
     (sampleField\<lparr>asset := None\<rparr>) sampleHost
     = Inr (sampleField\<lparr>fieldGroup :=
              Some [Rect 5 1 40 40 ''blocklySpriteField'' ''#898989'' 1 4,
                    ImageElement ''bitmap:0110'' 9 5 32 32]\<rparr>)
   \<and> assetChangeListener samplePxt sampleSubclass sampleProject
        (sampleField\<lparr>asset := None, pendingEdit := True\<rparr>) sampleHost
       = Inr (sampleField\<lparr>asset := None, pendingEdit := True\<rparr>)"
proof -
  have l: "lookupAsset sampleProject (getAssetType sampleSubclass) (Some ''img1'') (project sampleHost)
            = Some sampleAsset"
    by (simp add: sampleHost_def sampleProject_def sampleSubclass_def sampleAsset_def asset_type_def)
  show ?thesis
    using assetChangeListener_sync
            [of "Some sampleAsset" "sampleField\<lparr>asset := None\<rparr>" sampleProject sampleSubclass
                sampleHost samplePxt]
          assetChangeListener_sync
            [of "Some sampleAsset" "sampleField\<lparr>asset := None, pendingEdit := True\<rparr>"
                sampleProject sampleSubclass sampleHost samplePxt]
          l
    by (simp add: sampleField_def sampleAsset_def samplePxt_def truthy_def)
qed


text \<open>
  The claim as first stated fails for a field without a source block, where reading the
  block data throws, and when the project's asset is an animation without frames, where
  the redraw throws.
\<close>

theorem assetChangeListener_counterexample:
  "\<not> pendingEdit (sampleField\<lparr>sourceBlock := None\<rparr>)
   \<and> assetChangeListener samplePxt sampleSubclass sampleProject
        (sampleField\<lparr>sourceBlock := None\<rparr>) sampleHost = Inl TypeError
   \<and> \<not> pendingEdit sampleField
   \<and> assetChangeListener samplePxt (sampleSubclass\<lparr>getAssetType := Animation\<rparr>) sampleProject
        sampleField
        (sampleHost\<lparr>project := ([sampleAsset\<lparr>content := AnimationContent []\<rparr>], 7)\<rparr>)
       = Inl TypeError"
  by (simp add: assetChangeListener_def getBlockData_def redrawPreview_def previewURI_def
      truthy_def asset_type_def Let_def
      sampleField_def sampleBlock_def sampleAsset_def sampleHost_def sampleProject_def
      sampleSubclass_def samplePxt_def)

subsection \<open>Running a BlocklyTilemapChange\<close>

text \<open>
  Claim C2, amended. \<open>run\<close> applies the project's \<open>redo\<close> (forward) or \<open>undo\<close>
  (backward), then the base class's run, and then fires one more event, whose
  \<open>recordUndo\<close> is false and whose revisions are both 0. If the block of the event
  that is run is still in its workspace, the new event is a revision change: element
  \<^verbatim>\<open>'tilemap-revision'\<close>, name \<^verbatim>\<open>"revision"\<close>, old value \<^verbatim>\<open>null\<close>, new value the
  project's revision. If the block is gone, the new event is built from \<^verbatim>\<open>null\<close> and
  is blank. \<open>isNull\<close> holds exactly when the two revisions agree and the base class's
  \<open>isNull\<close> holds.
\<close>

theorem BlocklyTilemapChange_run:
  assumes "h1 = super_run B this forward
                  (h\<lparr>project := (if forward then redo P (project h) else undo P (project h))\<rparr>)"
    and "present \<longleftrightarrow> (\<exists>i. blockId this = Some i \<and> getBlockById (getEventWorkspace B this h1) i)"
  shows "(\<exists>ev. run B P this forward h = h1\<lparr>fired := fired h1 @ [ev]\<rparr>
           \<and> recordUndo ev = False \<and> oldRevision ev = 0 \<and> newRevision ev = 0
           \<and> (present \<longrightarrow>
                 blockId ev = blockId this
               \<and> element ev = Some ''tilemap-revision'' \<and> ev_name ev = Some ''revision''
               \<and> oldValue ev = Some VNull
               \<and> newValue ev = Some (VNumber (revision P (project h1))))
           \<and> (\<not> present \<longrightarrow>
                 blockId ev = None \<and> element ev = None \<and> ev_name ev = None
               \<and> oldValue ev = None \<and> newValue ev = None))
       \<and> isNull B this = (oldRevision this = newRevision this \<and> super_isNull B this)"
proof (rule conjI)
  let ?ev = "last (fired (run B P this forward h))"
  show "\<exists>ev. run B P this forward h = h1\<lparr>fired := fired h1 @ [ev]\<rparr>
           \<and> recordUndo ev = False \<and> oldRevision ev = 0 \<and> newRevision ev = 0
           \<and> (present \<longrightarrow>
                 blockId ev = blockId this
               \<and> element ev = Some ''tilemap-revision'' \<and> ev_name ev = Some ''revision''
               \<and> oldValue ev = Some VNull
               \<and> newValue ev = Some (VNumber (revision P (project h1))))
           \<and> (\<not> present \<longrightarrow>
                 blockId ev = None \<and> element ev = None \<and> ev_name ev = None
               \<and> oldValue ev = None \<and> newValue ev = None)"
    using assms
    by (intro exI [of _ ?ev])
       (auto simp: run_def Let_def newBlocklyTilemapChange_def split: option.splits)
next
  show "isNull B this = (oldRevision this = newRevision this \<and> super_isNull B this)"
    by (simp add: isNull_def)
qed


theorem BlocklyTilemapChange_run_witness:
  "run sampleBlockChange sampleProject
     \<lparr>blockId = Some ''b1'', element = Some ''field'', ev_name = Some ''img'',
      oldValue = Some (VString ''0110''), newValue = Some (VString ''1001''),
      oldRevision = 7, newRevision = 8, recordUndo = True\<rparr> False sampleHost
     = sampleHost
         \<lparr>project := ([sampleAsset], 6),
          fired := [\<lparr>blockId = Some ''b1'', element = Some ''tilemap-revision'',
                     ev_name = Some ''revision'', oldValue = Some VNull,
                     newValue = Some (VNumber 6), oldRevision = 0, newRevision = 0,
                     recordUndo = False\<rparr>]\<rparr>
   \<and> \<not> isNull sampleBlockChange
         \<lparr>blockId = Some ''b1'', element = Some ''field'', ev_name = Some ''img'',
          oldValue = Some (VString ''0110''), newValue = Some (VString ''0110''),
          oldRevision = 7, newRevision = 8, recordUndo = True\<rparr>"
  using BlocklyTilemapChange_run
          [OF refl refl, of sampleBlockChange sampleProject
              "\<lparr>blockId = Some ''b1'', element = Some ''field'', ev_name = Some ''img'',
                oldValue = Some (VString ''0110''), newValue = Some (VString ''1001''),
                oldRevision = 7, newRevision = 8, recordUndo = True\<rparr>" False sampleHost]
        BlocklyTilemapChange_run
          [OF refl refl, of sampleBlockChange sampleProject
              "\<lparr>blockId = Some ''b1'', element = Some ''field'', ev_name = Some ''img'',
                oldValue = Some (VString ''0110''), newValue = Some (VString ''0110''),
                oldRevision = 7, newRevision = 8, recordUndo = True\<rparr>" False sampleHost]
  by (simp add: run_def newBlocklyTilemapChange_def Let_def sampleBlockChange_def
      sampleProject_def sampleHost_def getBlockById_def)


text \<open>
  The claim as first stated fails for an event whose block has left the workspace: the
  event that is fired is blank, not a revision change.
\<close>

theorem BlocklyTilemapChange_run_counterexample:
  "run sampleBlockChange sampleProject
     \<lparr>blockId = Some ''b9'', element = Some ''field'', ev_name = Some ''img'',
      oldValue = Some (VString ''0110''), newValue = Some (VString ''1001''),
      oldRevision = 7, newRevision = 8, recordUndo = True\<rparr> True sampleHost
     = sampleHost
         \<lparr>project := ([sampleAsset], 8),
          fired := [\<lparr>blockId = None, element = None, ev_name = None, oldValue = None,
                     newValue = None, oldRevision = 0, newRevision = 0,
                     recordUndo = False\<rparr>]\<rparr>"
  by (simp add: run_def newBlocklyTilemapChange_def Let_def sampleBlockChange_def
      sampleProject_def sampleHost_def getBlockById_def)

subsection \<open>Recording the source block on the asset\<close>

lemma count_list_present: "x \<in> set xs \<Longrightarrow> max (Suc 0) (count_list xs x) = count_list xs x"
  using count_list_0_iff [of xs x] by (simp add: max_def)

text \<open>
  Claim C5, amended. Let \<open>updateAssetMeta\<close> run on a field with an asset and a source
  block, the project handing back duplicates that carry a \<^verbatim>\<open>meta\<close>. Then the call
  returns, the field's asset has \<^verbatim>\<open>meta\<close> and \<^verbatim>\<open>meta.blockIDs\<close>, the list holds
  the block's id as often as before, or once if it did not hold it (an id already present
  is not pushed again), the block data is the asset's id, and the asset is written to the
  project. If the block's id was not in the list, the asset is temporary (no or an empty
  display name) and the list names a live block of the workspace, then the asset is the
  project's duplicate with the block's id as its only entry, written to the project state
  that the duplication left; the original is handed to the project as it was. Otherwise
  the asset is the field's own, with the id appended when it was missing.
\<close>

theorem updateAssetMeta_records_block:
  assumes "asset f = Some a" and "sourceBlock f = Some b"
    and "meta (fst (duplicateAsset P a (project h))) \<noteq> None"
  shows "\<exists>f' h' a' p'.
           updateAssetMeta P f h = Inr (f', h')
         \<and> asset f' = Some a'
         \<and> (\<exists>m. meta a' = Some m \<and> blockIDs m = Some (assetBlockIDs a'))
         \<and> count_list (assetBlockIDs a') (block_id b) = max 1 (count_list (assetBlockIDs a) (block_id b))
         \<and> blockData f' = Some (asset_id a')
         \<and> project h' = updateAsset P a' p'
         \<and> (if block_id b \<notin> set (assetBlockIDs a) \<and> isTemporaryAsset f = Inr True
                \<and> list_ex (getBlockById (workspace b)) (assetBlockIDs a)
             then a' = setBlockIDs [block_id b] (fst (duplicateAsset P a (project h)))
                \<and> p' = snd (duplicateAsset P a (project h))
             else a' = setBlockIDs (if block_id b \<in> set (assetBlockIDs a) then assetBlockIDs a
                                    else assetBlockIDs a @ [block_id b]) a
                \<and> p' = project h)"
proof -
  let ?ids = "assetBlockIDs a"
  consider (present) "block_id b \<in> set ?ids"
    | (clone) "block_id b \<notin> set ?ids" "isTemporaryAsset f = Inr True"
        "list_ex (getBlockById (workspace b)) ?ids"
    | (append) "block_id b \<notin> set ?ids"
        "\<not> (isTemporaryAsset f = Inr True \<and> list_ex (getBlockById (workspace b)) ?ids)"
    by blast
  then show ?thesis
  proof cases
    case present
    have "updateAssetMeta P f h =
       Inr (f\<lparr>asset := Some (setBlockIDs ?ids a), blockData := Some (asset_id a)\<rparr>,
            h\<lparr>project := updateAsset P (setBlockIDs ?ids a) (project h)\<rparr>)"
      using assms(1,2) present by (rule updateAssetMeta_present)
    with present show ?thesis
      using meta_setBlockIDs [of ?ids a] by (simp add: count_list_present)
  next
    case clone
    let ?d = "fst (duplicateAsset P a (project h))"
    have "updateAssetMeta P f h =
       Inr (f\<lparr>asset := Some (setBlockIDs [block_id b] ?d), blockData := Some (asset_id ?d)\<rparr>,
            h\<lparr>project := updateAsset P (setBlockIDs [block_id b] ?d)
                            (snd (duplicateAsset P a (project h)))\<rparr>)"
      using assms(1,2) clone assms(3) by (rule updateAssetMeta_clone)
    with clone show ?thesis
      using meta_setBlockIDs [of "[block_id b]" ?d] by (simp add: count_list_0_iff)
  next
    case append
    have "updateAssetMeta P f h =
       Inr (f\<lparr>asset := Some (setBlockIDs (?ids @ [block_id b]) a), blockData := Some (asset_id a)\<rparr>,
            h\<lparr>project := updateAsset P (setBlockIDs (?ids @ [block_id b]) a) (project h)\<rparr>)"
      using assms(1,2) append by (rule updateAssetMeta_append)
    with append show ?thesis
      using meta_setBlockIDs [of "?ids @ [block_id b]" a] by (auto simp: count_list_0_iff)
  qed
qed

theorem updateAssetMeta_records_block_witness:
  "updateAssetMeta sampleProject (sampleField\<lparr>asset := Some sampleOther\<rparr>) sampleHost
     = Inr (sampleField
              \<lparr>asset := Some (sampleOther\<lparr>asset_id := ''img2-copy'',
                        meta := Some \<lparr>displayName = None, blockIDs = Some [''b1'']\<rparr>\<rparr>),
               blockData := Some ''img2-copy''\<rparr>,
            sampleHost
              \<lparr>project := ([sampleOther\<lparr>asset_id := ''img2-copy'',
                        meta := Some \<lparr>displayName = None, blockIDs = Some [''b1'']\<rparr>\<rparr>,
                             sampleAsset], 9)\<rparr>)
   \<and> updateAssetMeta sampleProject
        (sampleField\<lparr>asset := Some (sampleAsset\<lparr>meta := None\<rparr>)\<rparr>) sampleHost
     = Inr (sampleField, sampleHost\<lparr>project := ([sampleAsset], 8)\<rparr>)"
proof -
  have d: "meta (fst (duplicateAsset sampleProject x (project sampleHost))) \<noteq> None" for x
    by (simp add: sampleProject_def sampleCopy_def setBlockIDs_def)
  have s: "sourceBlock (sampleField\<lparr>asset := Some x\<rparr>) = Some sampleBlock" for x
    by (simp add: sampleField_def)
  show ?thesis
    using updateAssetMeta_records_block
            [of "sampleField\<lparr>asset := Some sampleOther\<rparr>" sampleOther sampleBlock
                sampleProject sampleHost, OF _ s d]
          updateAssetMeta_records_block
            [of "sampleField\<lparr>asset := Some (sampleAsset\<lparr>meta := None\<rparr>)\<rparr>"
                "sampleAsset\<lparr>meta := None\<rparr>" sampleBlock sampleProject sampleHost, OF _ s d]
    by (simp add: sampleProject_def sampleCopy_def sampleHost_def sampleField_def sampleBlock_def
        sampleAsset_def sampleOther_def
        updateAssetMeta_def isTemporaryAsset_def assetBlockIDs_def setBlockIDs_def
        getBlockById_def truthy_def emptyMeta_def Let_def)
qed

text \<open>
  The claim as first stated fails on a list that already holds the block's id twice (it
  still holds it twice afterwards), and on a temporary asset whose list names this block
  and another live block (no duplicate is made).
\<close>

theorem updateAssetMeta_counterexample:
  "updateAssetMeta sampleProject
     (sampleField\<lparr>asset := Some (sampleAsset\<lparr>meta :=
         Some \<lparr>displayName = None, blockIDs = Some [''b1'', ''b1'']\<rparr>\<rparr>)\<rparr>) sampleHost
     = Inr (sampleField\<lparr>asset := Some (sampleAsset\<lparr>meta :=
                Some \<lparr>displayName = None, blockIDs = Some [''b1'', ''b1'']\<rparr>\<rparr>)\<rparr>,
            sampleHost\<lparr>project := ([sampleAsset\<lparr>meta :=
                Some \<lparr>displayName = None, blockIDs = Some [''b1'', ''b1'']\<rparr>\<rparr>], 8)\<rparr>)
   \<and> isTemporaryAsset (sampleField\<lparr>asset := Some (sampleAsset\<lparr>meta :=
         Some \<lparr>displayName = None, blockIDs = Some [''b1'', ''b2'']\<rparr>\<rparr>)\<rparr>) = Inr True
   \<and> getBlockById (workspace sampleBlock) ''b2''
   \<and> updateAssetMeta sampleProject
     (sampleField\<lparr>asset := Some (sampleAsset\<lparr>meta :=
         Some \<lparr>displayName = None, blockIDs = Some [''b1'', ''b2'']\<rparr>\<rparr>)\<rparr>) sampleHost
     = Inr (sampleField\<lparr>asset := Some (sampleAsset\<lparr>meta :=
                Some \<lparr>displayName = None, blockIDs = Some [''b1'', ''b2'']\<rparr>\<rparr>)\<rparr>,
            sampleHost\<lparr>project := ([sampleAsset\<lparr>meta :=
                Some \<lparr>displayName = None, blockIDs = Some [''b1'', ''b2'']\<rparr>\<rparr>], 8)\<rparr>)"
  by (simp add: sampleProject_def sampleCopy_def sampleHost_def sampleField_def sampleBlock_def
        sampleAsset_def
        updateAssetMeta_def isTemporaryAsset_def assetBlockIDs_def setBlockIDs_def
        getBlockById_def truthy_def emptyMeta_def Let_def)

subsection \<open>Closing the editor\<close>

text \<open>
  Claim C1, amended. Let the view be hidden with a result that is not an animation without
  frames, the project handing back duplicates that carry a \<^verbatim>\<open>meta\<close> and the content
  of their original. If \<^verbatim>\<open>pxt.assetEquals\<close> holds of the field's asset and the result,
  the field and the host are unchanged and nothing is fired. Otherwise
  \<open>updateAssetMeta\<close> runs on the field holding the result and returns; the field's
  asset is then the result up to its block ids, or the project's duplicate of the result
  holding only the source block's id; that asset has been written to the project; the
  preview is redrawn from it (if the SVG group exists), the persistent data stored and
  the pending flag cleared; and an event is fired exactly when the field has a source
  block and Blockly's events are enabled. The event carries the field value read before
  the change, the value read after it, the project's revision read before the change and
  its revision after it.
\<close>

theorem onHide_result:
  assumes "\<forall>x p. meta (fst (duplicateAsset P x p)) \<noteq> None"
    and "\<forall>x p. content (fst (duplicateAsset P x p)) = content x"
    and "content r \<noteq> AnimationContent []"
    and "uri = (case content r of
                  ImageContent bitmap \<Rightarrow> bitmapToImageURI X bitmap 32 (lightMode f)
                | TileContent bitmap \<Rightarrow> bitmapToImageURI X bitmap 32 (lightMode f)
                | AnimationContent frames \<Rightarrow> bitmapToImageURI X (hd frames) 32 (lightMode f)
                | TilemapContent data \<Rightarrow> tilemapToImageURI X data 32 (lightMode f))"
    and "drawn = (case fieldGroup f of
                    None \<Rightarrow> None
                  | Some c \<Rightarrow>
                      Some (if isGreyBlock f then [TextElement]
                            else [Rect 5 1 40 40 ''blocklySpriteField'' ''#898989'' 1 4,
                                  ImageElement uri 9 5 32 32]))"
  shows "(assetEquals X (asset f) r \<longrightarrow> onHide X S P (Some r) persistent f h = Inr (f, h))
       \<and> (\<not> assetEquals X (asset f) r \<longrightarrow>
            (\<exists>f3 h3 a' p'.
                updateAssetMeta P (f\<lparr>pendingEdit := True, asset := Some r\<rparr>)
                  (updateAssetListener S P (f\<lparr>pendingEdit := True, asset := Some r\<rparr>)
                     (h\<lparr>project := onEditorClose S r (project h)\<rparr>)) = Inr (f3, h3)
              \<and> asset f3 = Some a' \<and> content a' = content r
              \<and> (a' = setBlockIDs (assetBlockIDs a') r
                  \<or> (\<exists>b p. sourceBlock f = Some b
                         \<and> a' = setBlockIDs [block_id b] (fst (duplicateAsset P r p))))
              \<and> project h3 = updateAsset P a' p'
              \<and> onHide X S P (Some r) persistent f h =
                  Inr (f3\<lparr>fieldGroup := drawn, undoRedoState := persistent, pendingEdit := False\<rparr>,
                       h\<lparr>project := project h3,
                         fired :=
                           (case sourceBlock f of
                              None \<Rightarrow> fired h
                            | Some b \<Rightarrow>
                                if eventsEnabled h
                                then fired h @
                                  [\<lparr>blockId = Some (block_id b), element = Some ''field'',
                                    ev_name = Some (name f),
                                    oldValue = Some (VString (getValue X S f)),
                                    newValue = Some (VString (getValue X S
                                       (f3\<lparr>fieldGroup := drawn, undoRedoState := persistent\<rparr>))),
                                    oldRevision = revision P (project h),
                                    newRevision = revision P (project h3),
                                    recordUndo = recordUndoDefault h\<rparr>]
                                else fired h)\<rparr>)))"
proof (intro conjI impI)
  assume "assetEquals X (asset f) r"
  then show "onHide X S P (Some r) persistent f h = Inr (f, h)"
    by (simp add: onHide_def Let_def)
next
  assume ne: "\<not> assetEquals X (asset f) r"
  let ?f1 = "f\<lparr>pendingEdit := True, asset := Some r\<rparr>"
  let ?h2 = "updateAssetListener S P ?f1 (h\<lparr>project := onEditorClose S r (project h)\<rparr>)"
  have h2: "?h2 = h\<lparr>project := project ?h2\<rparr>"
    using updateAssetListener_frame [of S P ?f1 "h\<lparr>project := onEditorClose S r (project h)\<rparr>"]
    by simp
  have "asset ?f1 = Some r" by simp
  from updateAssetMeta_total [OF this assms(1), of ?h2]
  obtain f3 h3 a' p' where
    u: "updateAssetMeta P ?f1 ?h2 = Inr (f3, h3)" and a: "asset f3 = Some a'"
    and p: "project h3 = updateAsset P a' p'"
    and shape: "a' = setBlockIDs (assetBlockIDs a') r
        \<or> (\<exists>b. sourceBlock ?f1 = Some b
               \<and> a' = setBlockIDs [block_id b] (fst (duplicateAsset P r (project ?h2))))"
    by blast
  from shape assms(2) have ca: "content a' = content r"
    by (metis setBlockIDs_fields(2))
  from updateAssetMeta_frame [OF u]
  have f3: "f3 = ?f1\<lparr>asset := asset f3, blockData := blockData f3\<rparr>"
    and h3: "h3 = ?h2\<lparr>project := project h3\<rparr>" by simp_all
  have fr: "sourceBlock f3 = sourceBlock f" "name f3 = name f" "fieldGroup f3 = fieldGroup f"
    "isGreyBlock f3 = isGreyBlock f" "lightMode f3 = lightMode f"
    by (subst f3, simp)+
  have hh: "h3 = h\<lparr>project := project h3\<rparr>"
    by (subst h3, subst h2, simp)
  have ev: "eventsEnabled h3 = eventsEnabled h" "fired h3 = fired h"
    "recordUndoDefault h3 = recordUndoDefault h"
    by (subst hh, simp)+
  have ok: "\<forall>x. asset f3 = Some x \<longrightarrow> content x \<noteq> AnimationContent []"
    using a ca assms(3) by simp
  have rd: "redrawPreview X f3 = Inr (f3\<lparr>fieldGroup := drawn\<rparr>)"
    unfolding redrawPreview_drawn [OF ok] assms(4,5)
    by (simp add: a ca fr split: option.splits AssetContent.splits)
  have res: "onHide X S P (Some r) persistent f h =
                  Inr (f3\<lparr>fieldGroup := drawn, undoRedoState := persistent, pendingEdit := False\<rparr>,
                       h\<lparr>project := project h3,
                         fired :=
                           (case sourceBlock f of
                              None \<Rightarrow> fired h
                            | Some b \<Rightarrow>
                                if eventsEnabled h
                                then fired h @
                                  [\<lparr>blockId = Some (block_id b), element = Some ''field'',
                                    ev_name = Some (name f),
                                    oldValue = Some (VString (getValue X S f)),
                                    newValue = Some (VString (getValue X S
                                       (f3\<lparr>fieldGroup := drawn, undoRedoState := persistent\<rparr>))),
                                    oldRevision = revision P (project h),
                                    newRevision = revision P (project h3),
                                    recordUndo = recordUndoDefault h\<rparr>]
                                else fired h)\<rparr>)"
    using ne u hh
    by (simp add: onHide_def Let_def rd fr ev newBlocklyTilemapChange_def split: option.splits)
  show "\<exists>f3 h3 a' p'.
                updateAssetMeta P (f\<lparr>pendingEdit := True, asset := Some r\<rparr>)
                  (updateAssetListener S P (f\<lparr>pendingEdit := True, asset := Some r\<rparr>)
                     (h\<lparr>project := onEditorClose S r (project h)\<rparr>)) = Inr (f3, h3)
              \<and> asset f3 = Some a' \<and> content a' = content r
              \<and> (a' = setBlockIDs (assetBlockIDs a') r
                  \<or> (\<exists>b p. sourceBlock f = Some b
                         \<and> a' = setBlockIDs [block_id b] (fst (duplicateAsset P r p))))
              \<and> project h3 = updateAsset P a' p'
              \<and> onHide X S P (Some r) persistent f h =
                  Inr (f3\<lparr>fieldGroup := drawn, undoRedoState := persistent, pendingEdit := False\<rparr>,
                       h\<lparr>project := project h3,
                         fired :=
                           (case sourceBlock f of
                              None \<Rightarrow> fired h
                            | Some b \<Rightarrow>
                                if eventsEnabled h
                                then fired h @
                                  [\<lparr>blockId = Some (block_id b), element = Some ''field'',
                                    ev_name = Some (name f),
                                    oldValue = Some (VString (getValue X S f)),
                                    newValue = Some (VString (getValue X S
                                       (f3\<lparr>fieldGroup := drawn, undoRedoState := persistent\<rparr>))),
                                    oldRevision = revision P (project h),
                                    newRevision = revision P (project h3),
                                    recordUndo = recordUndoDefault h\<rparr>]
                                else fired h)\<rparr>)"
    using u a ca p shape res by auto
qed


theorem onHide_result_witness:
  "onHide samplePxt sampleSubclass sampleProject (Some sampleAsset) (Some 5) sampleField sampleHost
     = Inr (sampleField, sampleHost)
   \<and> onHide samplePxt sampleSubclass sampleProject (Some sampleResult) (Some 5) sampleField sampleHost
     = Inr (sampleField
              \<lparr>asset := Some sampleResult, undoRedoState := Some 5,
               fieldGroup := Some [Rect 5 1 40 40 ''blocklySpriteField'' ''#898989'' 1 4,
                                   ImageElement ''bitmap:1001'' 9 5 32 32]\<rparr>,
            sampleHost
              \<lparr>project := ([sampleResult], 8),
               fired := [\<lparr>blockId = Some ''b1'', element = Some ''field'', ev_name = Some ''img'',
                          oldValue = Some (VString ''0110''), newValue = Some (VString ''1001''),
                          oldRevision = 7, newRevision = 8, recordUndo = True\<rparr>]\<rparr>)"
proof -
  have d: "\<forall>x p. meta (fst (duplicateAsset sampleProject x p)) \<noteq> None"
    by (simp add: sampleProject_def sampleCopy_def setBlockIDs_def)
  have c: "\<forall>x p. content (fst (duplicateAsset sampleProject x p)) = content x"
    by (simp add: sampleProject_def sampleCopy_def setBlockIDs_def)
  have a: "content sampleAsset \<noteq> AnimationContent []"
    and r: "content sampleResult \<noteq> AnimationContent []"
    by (simp_all add: sampleAsset_def sampleResult_def)
  show ?thesis
    using onHide_result [OF d c a refl refl, of samplePxt sampleField sampleSubclass "Some 5" sampleHost]
          onHide_result [OF d c r refl refl, of samplePxt sampleField sampleSubclass "Some 5" sampleHost]
    by (simp add: sampleProject_def sampleCopy_def samplePxt_def sampleSubclass_def sampleHost_def
        sampleField_def sampleBlock_def sampleAsset_def sampleResult_def
        onHide_def getValue_def updateAssetListener_def redrawPreview_def previewURI_def
        newBlocklyTilemapChange_def
        updateAssetMeta_def isTemporaryAsset_def assetBlockIDs_def setBlockIDs_def
        getBlockById_def truthy_def emptyMeta_def
        PREVIEW_WIDTH_def X_PADDING_def Y_PADDING_def BG_PADDING_def BG_WIDTH_def Let_def)
qed


text \<open>
  The claim as first stated fails when Blockly's events are disabled: the result is
  adopted and stored, and no event is fired. It fails for a temporary result that another
  live block uses: the field ends with the project's duplicate, not the result. And it
  fails for a result that is an animation without frames: the redraw throws before the
  event is fired.
\<close>

theorem onHide_counterexample:
  "\<not> assetEquals samplePxt (asset sampleField) sampleResult
   \<and> onHide samplePxt sampleSubclass sampleProject (Some sampleResult) (Some 5) sampleField
        (sampleHost\<lparr>eventsEnabled := False\<rparr>)
     = Inr (sampleField
              \<lparr>asset := Some sampleResult, undoRedoState := Some 5,
               fieldGroup := Some [Rect 5 1 40 40 ''blocklySpriteField'' ''#898989'' 1 4,
                                   ImageElement ''bitmap:1001'' 9 5 32 32]\<rparr>,
            sampleHost\<lparr>project := ([sampleResult], 8), eventsEnabled := False, fired := []\<rparr>)
   \<and> \<not> assetEquals samplePxt (asset sampleField) sampleOther
   \<and> onHide samplePxt sampleSubclass sampleProject (Some sampleOther) (Some 5) sampleField sampleHost
     = Inr (sampleField
              \<lparr>asset := Some (sampleOther\<lparr>asset_id := ''img2-copy'',
                      meta := Some \<lparr>displayName = None, blockIDs = Some [''b1'']\<rparr>\<rparr>),
               undoRedoState := Some 5,
               fieldGroup := Some [Rect 5 1 40 40 ''blocklySpriteField'' ''#898989'' 1 4,
                                   ImageElement ''bitmap:1001'' 9 5 32 32],
               blockData := Some ''img2-copy''\<rparr>,
            sampleHost
              \<lparr>project := ([sampleOther\<lparr>asset_id := ''img2-copy'',
                      meta := Some \<lparr>displayName = None, blockIDs = Some [''b1'']\<rparr>\<rparr>, sampleAsset], 9),
               fired := [\<lparr>blockId = Some ''b1'', element = Some ''field'', ev_name = Some ''img'',
                          oldValue = Some (VString ''0110''), newValue = Some (VString ''1001''),
                          oldRevision = 7, newRevision = 9, recordUndo = True\<rparr>]\<rparr>)
   \<and> \<not> assetEquals samplePxt (asset sampleField) (sampleAsset\<lparr>content := AnimationContent []\<rparr>)
   \<and> onHide samplePxt sampleSubclass sampleProject
        (Some (sampleAsset\<lparr>content := AnimationContent []\<rparr>)) (Some 5) sampleField sampleHost
     = Inl TypeError"
  by (simp add: sampleProject_def sampleCopy_def samplePxt_def sampleSubclass_def sampleHost_def
        sampleField_def sampleBlock_def sampleAsset_def sampleResult_def sampleOther_def
        onHide_def getValue_def updateAssetListener_def redrawPreview_def previewURI_def
        newBlocklyTilemapChange_def
        updateAssetMeta_def isTemporaryAsset_def assetBlockIDs_def setBlockIDs_def
        getBlockById_def truthy_def emptyMeta_def
        PREVIEW_WIDTH_def X_PADDING_def Y_PADDING_def BG_PADDING_def BG_WIDTH_def Let_def)

subsection \<open>The editor and the preview by asset type\<close>

lemma showEditor_kind:
  assumes "\<not> isGreyBlock f" and "asset f = Some a"
  shows "\<exists>f' h' v. showEditor P f h = Inr (f', h', Some v)
           \<and> editorKind v =
               (case asset_type a of
                  Image \<Rightarrow> ''image-editor''
                | Tile \<Rightarrow> ''image-editor''
                | Animation \<Rightarrow> ''animation-editor''
                | Tilemap \<Rightarrow> ''tilemap-editor'')"
  using assms
  by (cases "content a")
     (simp_all add: showEditor_def Let_def asset_type_def split: prod.splits)

text \<open>
  Claim C3, amended. For a field that is not grey and holds an asset, \<open>showEditor\<close>
  opens the image editor for an image or a tile, the animation editor for an animation
  and the tilemap editor for a tilemap. Before the field's SVG group exists,
  \<open>redrawPreview\<close> returns without drawing. Once it exists, \<open>redrawPreview\<close> leaves
  the background and one image in it, whose URI comes from the bitmap for an image or a
  tile, from the first frame for an animation that has a frame, and from the tilemap
  data for a tilemap; for an animation without frames it throws.
\<close>

theorem editor_and_preview_by_type:
  assumes "\<not> isGreyBlock f" and "asset f = Some a"
  shows "(\<exists>f' h' v. showEditor P f h = Inr (f', h', Some v)
           \<and> editorKind v =
               (case asset_type a of
                  Image \<Rightarrow> ''image-editor''
                | Tile \<Rightarrow> ''image-editor''
                | Animation \<Rightarrow> ''animation-editor''
                | Tilemap \<Rightarrow> ''tilemap-editor''))
       \<and> (fieldGroup f = None \<longrightarrow> redrawPreview X f = Inr f)
       \<and> (fieldGroup f \<noteq> None \<longrightarrow>
             (\<forall>bitmap. content a = ImageContent bitmap \<longrightarrow>
                redrawPreview X f =
                  Inr (f\<lparr>fieldGroup := Some [Rect 5 1 40 40 ''blocklySpriteField'' ''#898989'' 1 4,
                         ImageElement (bitmapToImageURI X bitmap 32 (lightMode f)) 9 5 32 32]\<rparr>))
           \<and> (\<forall>bitmap. content a = TileContent bitmap \<longrightarrow>
                redrawPreview X f =
                  Inr (f\<lparr>fieldGroup := Some [Rect 5 1 40 40 ''blocklySpriteField'' ''#898989'' 1 4,
                         ImageElement (bitmapToImageURI X bitmap 32 (lightMode f)) 9 5 32 32]\<rparr>))
           \<and> (\<forall>frame rest. content a = AnimationContent (frame # rest) \<longrightarrow>
                redrawPreview X f =
                  Inr (f\<lparr>fieldGroup := Some [Rect 5 1 40 40 ''blocklySpriteField'' ''#898989'' 1 4,
                         ImageElement (bitmapToImageURI X frame 32 (lightMode f)) 9 5 32 32]\<rparr>))
           \<and> (\<forall>data. content a = TilemapContent data \<longrightarrow>
                redrawPreview X f =
                  Inr (f\<lparr>fieldGroup := Some [Rect 5 1 40 40 ''blocklySpriteField'' ''#898989'' 1 4,
                         ImageElement (tilemapToImageURI X data 32 (lightMode f)) 9 5 32 32]\<rparr>))
           \<and> (content a = AnimationContent [] \<longrightarrow> redrawPreview X f = Inl TypeError))"
proof (intro conjI impI allI)
  show "\<exists>f' h' v. showEditor P f h = Inr (f', h', Some v)
           \<and> editorKind v =
               (case asset_type a of
                  Image \<Rightarrow> ''image-editor''
                | Tile \<Rightarrow> ''image-editor''
                | Animation \<Rightarrow> ''animation-editor''
                | Tilemap \<Rightarrow> ''tilemap-editor'')"
    using assms by (rule showEditor_kind)
next
  assume "fieldGroup f = None"
  then show "redrawPreview X f = Inr f" by (rule redrawPreview_no_group)
next
  fix bitmap
  assume "fieldGroup f \<noteq> None" and c: "content a = ImageContent bitmap"
  then obtain children where g: "fieldGroup f = Some children" by auto
  have "previewURI X (lightMode f) a = Inr (bitmapToImageURI X bitmap 32 (lightMode f))"
    using c by (simp add: previewURI_def PREVIEW_WIDTH_def)
  with g assms
  show "redrawPreview X f =
          Inr (f\<lparr>fieldGroup := Some [Rect 5 1 40 40 ''blocklySpriteField'' ''#898989'' 1 4,
                 ImageElement (bitmapToImageURI X bitmap 32 (lightMode f)) 9 5 32 32]\<rparr>)"
    by (rule redrawPreview_image)
next
  fix bitmap
  assume "fieldGroup f \<noteq> None" and c: "content a = TileContent bitmap"
  then obtain children where g: "fieldGroup f = Some children" by auto
  have "previewURI X (lightMode f) a = Inr (bitmapToImageURI X bitmap 32 (lightMode f))"
    using c by (simp add: previewURI_def PREVIEW_WIDTH_def)
  with g assms
  show "redrawPreview X f =
          Inr (f\<lparr>fieldGroup := Some [Rect 5 1 40 40 ''blocklySpriteField'' ''#898989'' 1 4,
                 ImageElement (bitmapToImageURI X bitmap 32 (lightMode f)) 9 5 32 32]\<rparr>)"
    by (rule redrawPreview_image)
next
  fix frame rest
  assume "fieldGroup f \<noteq> None" and c: "content a = AnimationContent (frame # rest)"
  then obtain children where g: "fieldGroup f = Some children" by auto
  have "previewURI X (lightMode f) a = Inr (bitmapToImageURI X frame 32 (lightMode f))"
    using c by (simp add: previewURI_def PREVIEW_WIDTH_def)
  with g assms
  show "redrawPreview X f =
          Inr (f\<lparr>fieldGroup := Some [Rect 5 1 40 40 ''blocklySpriteField'' ''#898989'' 1 4,
                 ImageElement (bitmapToImageURI X frame 32 (lightMode f)) 9 5 32 32]\<rparr>)"
    by (rule redrawPreview_image)
next
  fix data
  assume "fieldGroup f \<noteq> None" and c: "content a = TilemapContent data"
  then obtain children where g: "fieldGroup f = Some children" by auto
  have "previewURI X (lightMode f) a = Inr (tilemapToImageURI X data 32 (lightMode f))"
    using c by (simp add: previewURI_def PREVIEW_WIDTH_def)
  with g assms
  show "redrawPreview X f =
          Inr (f\<lparr>fieldGroup := Some [Rect 5 1 40 40 ''blocklySpriteField'' ''#898989'' 1 4,
                 ImageElement (tilemapToImageURI X data 32 (lightMode f)) 9 5 32 32]\<rparr>)"
    by (rule redrawPreview_image)
next
  assume "fieldGroup f \<noteq> None" and c: "content a = AnimationContent []"
  then obtain children where g: "fieldGroup f = Some children" by auto
  from g assms c show "redrawPreview X f = Inl TypeError" by (rule redrawPreview_throws)
qed


theorem editor_and_preview_by_type_witness:
  "(\<exists>f' h' v. showEditor sampleProject sampleField sampleHost = Inr (f', h', Some v)
       \<and> editorKind v = ''image-editor'')
   \<and> (\<exists>f' h' v. showEditor sampleProject
          (sampleField\<lparr>asset := Some (sampleAsset\<lparr>content := TileContent ''11''\<rparr>)\<rparr>) sampleHost
            = Inr (f', h', Some v)
       \<and> editorKind v = ''image-editor'')
   \<and> (\<exists>f' h' v. showEditor sampleProject
          (sampleField\<lparr>asset := Some (sampleAsset\<lparr>content := AnimationContent [''f0'', ''f1'']\<rparr>)\<rparr>)
          sampleHost = Inr (f', h', Some v)
       \<and> editorKind v = ''animation-editor'')
   \<and> (\<exists>f' h' v. showEditor sampleProject (sampleField\<lparr>asset := Some sampleTilemap\<rparr>) sampleHost
            = Inr (f', h', Some v)
       \<and> editorKind v = ''tilemap-editor'')
   \<and> redrawPreview samplePxt sampleField
       = Inr (sampleField\<lparr>fieldGroup :=
                Some [Rect 5 1 40 40 ''blocklySpriteField'' ''#898989'' 1 4,
                      ImageElement ''bitmap:0110'' 9 5 32 32]\<rparr>)
   \<and> redrawPreview samplePxt
         (sampleField\<lparr>asset := Some (sampleAsset\<lparr>content := AnimationContent [''f0'', ''f1'']\<rparr>)\<rparr>)
       = Inr (sampleField
               \<lparr>asset := Some (sampleAsset\<lparr>content := AnimationContent [''f0'', ''f1'']\<rparr>),
                fieldGroup :=
                  Some [Rect 5 1 40 40 ''blocklySpriteField'' ''#898989'' 1 4,
                        ImageElement ''bitmap:f0'' 9 5 32 32]\<rparr>)
   \<and> redrawPreview samplePxt (sampleField\<lparr>asset := Some sampleTilemap\<rparr>)
       = Inr (sampleField
               \<lparr>asset := Some sampleTilemap,
                fieldGroup :=
                  Some [Rect 5 1 40 40 ''blocklySpriteField'' ''#898989'' 1 4,
                        ImageElement ''tilemap'' 9 5 32 32]\<rparr>)
   \<and> redrawPreview samplePxt (sampleField\<lparr>fieldGroup := None\<rparr>)
       = Inr (sampleField\<lparr>fieldGroup := None\<rparr>)"
  using editor_and_preview_by_type
          [of sampleField sampleAsset sampleProject sampleHost samplePxt]
        editor_and_preview_by_type
          [of "sampleField\<lparr>asset := Some (sampleAsset\<lparr>content := TileContent ''11''\<rparr>)\<rparr>"
              "sampleAsset\<lparr>content := TileContent ''11''\<rparr>" sampleProject sampleHost samplePxt]
        editor_and_preview_by_type
          [of "sampleField\<lparr>asset := Some (sampleAsset\<lparr>content := AnimationContent [''f0'', ''f1'']\<rparr>)\<rparr>"
              "sampleAsset\<lparr>content := AnimationContent [''f0'', ''f1'']\<rparr>"
              sampleProject sampleHost samplePxt]
        editor_and_preview_by_type
          [of "sampleField\<lparr>asset := Some sampleTilemap\<rparr>" sampleTilemap
              sampleProject sampleHost samplePxt]
        editor_and_preview_by_type
          [of "sampleField\<lparr>fieldGroup := None\<rparr>" sampleAsset sampleProject sampleHost samplePxt]
  by (simp add: sampleField_def sampleAsset_def sampleTilemap_def samplePxt_def asset_type_def)


text \<open>
  The claim as first stated fails before the SVG group exists, where nothing is drawn,
  and for an animation without frames, where no URI is produced.
\<close>

theorem editor_and_preview_counterexample:
  "\<not> isGreyBlock (sampleField\<lparr>fieldGroup := None\<rparr>)
   \<and> asset (sampleField\<lparr>fieldGroup := None\<rparr>) = Some sampleAsset
   \<and> redrawPreview samplePxt (sampleField\<lparr>fieldGroup := None\<rparr>)
       = Inr (sampleField\<lparr>fieldGroup := None\<rparr>)
   \<and> \<not> isGreyBlock sampleField
   \<and> redrawPreview samplePxt
         (sampleField\<lparr>asset := Some (sampleAsset\<lparr>content := AnimationContent []\<rparr>)\<rparr>)
       = Inl TypeError"
  by (simp add: samplePxt_def sampleField_def sampleBlock_def sampleAsset_def
        redrawPreview_def previewURI_def Let_def)

subsection \<open>One project behind all fields\<close>






end
